theory Spec2Isabelle
  imports Complex_Main "HOL-Library.Word"
begin

unbundle bit_operations_syntax

section \<open>JavaScript values\<close>

text \<open>
  The repository is a set of Node.js request handlers.  An exception of the runtime is a
  value of \<open>js_error\<close>, and a computation that may throw returns \<open>js_error + 'a\<close>
  (\<open>Inl\<close> the exception), so that every \<open>try\<close>/\<open>catch\<close> of the source is a case
  distinction of the model.
\<close>

datatype js_error = TypeError | SyntaxError | RangeError | InvalidDigest | UpstreamError

text \<open>
  A JavaScript string is a sequence of UTF-16 code units.  The description of an invoice is
  the one string whose characters the code inspects, so it is modelled as the list of its
  code units; strings that are only compared or passed on are HOL strings.
\<close>

type_synonym jsstring = "nat list"

definition js :: "string \<Rightarrow> jsstring" where
  "js s = map of_char s"

text \<open>Truthiness of a value that is absent or a string: \<open>undefined\<close> and \<open>''\<close> are falsy.\<close>

definition truthy :: "'a list option \<Rightarrow> bool" where
  "truthy v = (case v of None \<Rightarrow> False | Some s \<Rightarrow> s \<noteq> [])"

subsection \<open>Parsed JSON\<close>

text \<open>
  \<open>JSON.parse\<close> gives a value of \<open>json\<close>; a property that is not there reads as
  \<open>undefined\<close>.  Reading a property of \<open>undefined\<close> or \<open>null\<close> throws a TypeError; of
  any other value that is no object it gives \<open>undefined\<close>, for the names the handlers read
  (\<open>event\<close>, \<open>data\<close>, \<open>metadata\<close>, \<open>OrderId\<close>, \<open>id\<close>, \<open>paymentMethod\<close>,
  \<open>destination\<close>, \<open>address\<close>, \<open>amount\<close>, \<open>cryptoAmount\<close>, \<open>checkoutLink\<close>,
  \<open>expirationTime\<close>, \<open>status\<close>).  Of a key written twice \<open>JSON.parse\<close> keeps the last.
\<close>

datatype json =
  JNull | JBool bool | JNumber rat | JString string | JArray "json list"
  | JObject "(string \<times> json) list"

datatype jsvalue = Undefined | Value json

fun property :: "jsvalue \<Rightarrow> string \<Rightarrow> js_error + jsvalue" where
  "property Undefined name = Inl TypeError"
| "property (Value JNull) name = Inl TypeError"
| "property (Value (JObject members)) name =
     Inr (case map_of (rev members) name of None \<Rightarrow> Undefined | Some v \<Rightarrow> Value v)"
| "property (Value v) name = Inr Undefined"

fun js_truthy :: "jsvalue \<Rightarrow> bool" where
  "js_truthy Undefined = False"
| "js_truthy (Value JNull) = False"
| "js_truthy (Value (JBool b)) = b"
| "js_truthy (Value (JNumber n)) = (n \<noteq> 0)"
| "js_truthy (Value (JString s)) = (s \<noteq> [])"
| "js_truthy (Value v) = True"

section \<open>\<open>sanitizeMetadata\<close> (api/create-invoice.js, lines 9 to 13)\<close>

text \<open>
  \<^verbatim>\<open>value.replace(/\s+/g, '_').replace(/[^a-zA-Z0-9_-]/g, '')\<close>

  \<open>is_whitespace\<close> is the class \<open>\s\<close> of ECMAScript (WhiteSpace and LineTerminator),
  \<open>is_metadata_char\<close> the class \<open>[a-zA-Z0-9_-]\<close>.
\<close>

definition is_whitespace :: "nat \<Rightarrow> bool" where
  "is_whitespace c =
     (c \<in> set [9, 10, 11, 12, 13, 32, 160, 5760, 8232, 8233, 8239, 8287, 12288, 65279]
      \<or> (8192 \<le> c \<and> c \<le> 8202))"

definition is_metadata_char :: "nat \<Rightarrow> bool" where
  "is_metadata_char c =
     ((97 \<le> c \<and> c \<le> 122) \<or> (65 \<le> c \<and> c \<le> 90) \<or> (48 \<le> c \<and> c \<le> 57)
      \<or> c = 95 \<or> c = 45)"

text \<open>
  A global replace scans the string from the left.  Where \<open>\s+\<close> matches, the match is
  greedy: it takes the whitespace up to the next character that is none, the replacement
  is written once, and the scan goes on behind the match.  Where it does not match, the
  character is copied.
\<close>

function replace_whitespace :: "jsstring \<Rightarrow> jsstring" where
  "replace_whitespace [] = []"
| "replace_whitespace (c # cs) =
     (if is_whitespace c then 95 # replace_whitespace (dropWhile is_whitespace cs)
      else c # replace_whitespace cs)"
  by pat_completeness auto
termination
  by (relation "measure length") (auto simp: length_dropWhile_le less_Suc_eq_le)

text \<open>The second replace matches one character at a time and writes nothing for it.\<close>

definition remove_disallowed :: "jsstring \<Rightarrow> jsstring" where
  "remove_disallowed s = filter is_metadata_char s"

definition sanitizeMetadata :: "jsstring \<Rightarrow> jsstring" where
  "sanitizeMetadata v = remove_disallowed (replace_whitespace v)"

text \<open>\<^verbatim>\<open>sanitizeMetadata(description || 'Payment')\<close>, the value sent as \<open>metadata.description\<close>.\<close>

definition metadata_description_of :: "jsstring option \<Rightarrow> jsstring" where
  "metadata_description_of d =
     sanitizeMetadata (case d of None \<Rightarrow> js ''Payment''
                       | Some s \<Rightarrow> if s = [] then js ''Payment'' else s)"

subsection \<open>The specification's wording\<close>

text \<open>
  The specification describes the result by the maximal runs of whitespace.  \<open>runs P s\<close>
  cuts \<open>s\<close> into its maximal runs of characters that agree on \<open>P\<close>; a run of whitespace is
  written as one underscore, any other run as it is, and of the result the characters of
  \<open>[A-Za-z0-9_-]\<close> are kept.
\<close>

fun runs :: "('a \<Rightarrow> bool) \<Rightarrow> 'a list \<Rightarrow> 'a list list" where
  "runs P [] = []"
| "runs P (x # xs) =
     (case runs P xs of
        [] \<Rightarrow> [[x]]
      | r # rs \<Rightarrow> if P (hd r) = P x then (x # r) # rs else [x] # r # rs)"

definition underscore_run :: "jsstring \<Rightarrow> jsstring" where
  "underscore_run r = (if is_whitespace (hd r) then [95] else r)"

definition sanitize_spec :: "jsstring \<Rightarrow> jsstring" where
  "sanitize_spec s =
     filter is_metadata_char (concat (map underscore_run (runs is_whitespace s)))"

section \<open>The invoice handler (api/create-invoice.js)\<close>

subsection \<open>Payment methods and the upstream service\<close>

text \<open>
  An entry of the provider's payment-methods answer.  A field that is absent is \<open>None\<close>;
  the code tests \<open>destination\<close> and the amounts for truthiness only.
\<close>

record method_entry =
  paymentMethod :: string
  destination :: "string option"
  amount :: "string option"
  cryptoAmount :: "string option"

text \<open>
  One call of \<open>elenpayRequest\<close> for the payment methods either throws (transport error,
  status outside 2xx) or returns the body: a list of entries, or \<open>null\<close> (\<open>None\<close>).
  The provider is a black box: its answer to the poll number \<open>k\<close> (from 0) is \<open>upstream k\<close>.
\<close>

datatype poll_response = PollThrows | PollReturns "method_entry list option"

text \<open>What the handler does to the outside during the loop, in order.\<close>

datatype io_event = Wait nat | GetPaymentMethods

definition polls_in :: "io_event list \<Rightarrow> nat" where
  "polls_in tr = length (filter (\<lambda>e. e = GetPaymentMethods) tr)"

subsection \<open>The poll loop (lines 85 to 120)\<close>

text \<open>
  The same loop stands in the Express variant of the handler (unnamed/part_001, lines 120
  to 157).  \<open>poll_state\<close> holds the variables \<open>paymentMethods\<close> and \<open>retries\<close> and the
  trace of what the loop has done so far.
\<close>

definition maxRetries :: "string \<Rightarrow> nat" where
  "maxRetries pm = (if pm = ''onchain'' then 5 else 1)"

definition hasLightning :: "method_entry list \<Rightarrow> bool" where
  "hasLightning ms =
     list_ex (\<lambda>m. paymentMethod m = ''BTC-LightningNetwork'' \<and> truthy (destination m)) ms"

definition hasOnchain :: "method_entry list \<Rightarrow> bool" where
  "hasOnchain ms =
     list_ex (\<lambda>m. paymentMethod m = ''BTC-Onchain'' \<and> truthy (destination m)) ms"

text \<open>The condition under which the loop breaks (lines 102 to 112).\<close>

definition found :: "string \<Rightarrow> method_entry list option \<Rightarrow> bool" where
  "found pm r =
     (case r of None \<Rightarrow> False
      | Some ms \<Rightarrow> ms \<noteq> [] \<and> ((pm = ''lightning'' \<and> hasLightning ms)
                                \<or> (pm = ''onchain'' \<and> hasOnchain ms)))"

record poll_state =
  paymentMethods :: "method_entry list option"
  retries :: nat
  trace :: "io_event list"

function poll_loop :: "string \<Rightarrow> (nat \<Rightarrow> poll_response) \<Rightarrow> poll_state \<Rightarrow> poll_state" where
  "poll_loop pm upstream st =
     (if retries st < maxRetries pm then
        (let waited = (if retries st > 0 then trace st @ [Wait 2000] else trace st);
             asked = waited @ [GetPaymentMethods]
         in case upstream (polls_in (trace st)) of
              PollThrows \<Rightarrow>
                poll_loop pm upstream (st\<lparr>retries := Suc (retries st), trace := asked\<rparr>)
            | PollReturns r \<Rightarrow>
                if found pm r then st\<lparr>paymentMethods := r, trace := asked\<rparr>
                else poll_loop pm upstream
                       (st\<lparr>paymentMethods := r, retries := Suc (retries st), trace := asked\<rparr>))
      else st)"
  by pat_completeness auto
termination
  by (relation "measure (\<lambda>(pm, upstream, st). maxRetries pm - retries st)") auto

declare poll_loop.simps [simp del]

definition poll :: "string \<Rightarrow> (nat \<Rightarrow> poll_response) \<Rightarrow> poll_state" where
  "poll pm upstream = poll_loop pm upstream \<lparr>paymentMethods = None, retries = 0, trace = []\<rparr>"

subsection \<open>What the loop is expected to do\<close>

definition hit :: "string \<Rightarrow> poll_response \<Rightarrow> bool" where
  "hit pm a = (case a of PollThrows \<Rightarrow> False | PollReturns r \<Rightarrow> found pm r)"


text \<open>\<open>n\<close> polls with a wait of 2000 ms before each but the first.\<close>

fun spaced :: "nat \<Rightarrow> io_event list" where
  "spaced 0 = []"
| "spaced (Suc n) =
     (if n = 0 then [GetPaymentMethods] else spaced n @ [Wait 2000, GetPaymentMethods])"






subsection \<open>Answers of any shape\<close>

text \<open>
  \<open>elenpayRequest\<close> returns \<open>response.data\<close> as the provider sent it, and nothing checks
  that it is a list of entries.  The handler does three things with the body: it tests
  \<^verbatim>\<open>paymentMethods && paymentMethods.length > 0\<close>, it calls \<open>some\<close> and \<open>every\<close> on it,
  and it iterates over it.  A body that is an array is \<open>ArrayBody\<close> with its elements, any
  JSON values.  A body that is no array is \<open>OtherBody c\<close>, where \<open>c\<close> tells whether the
  test holds (or throws) for it: \<open>False\<close> for \<open>null\<close>, the empty string, a number, a
  boolean and an object with no \<open>length\<close> greater than 0; \<open>True\<close> for a string that is
  not empty and for an object whose \<open>length\<close> compares greater than 0.  Such a body has
  no \<open>some\<close> and no \<open>every\<close>, so that calling them throws a TypeError.
\<close>

datatype polled = ArrayBody "json list" | OtherBody bool

definition null_body :: polled where
  "null_body = OtherBody False"

definition text_body :: "string \<Rightarrow> polled" where
  "text_body s = OtherBody (s \<noteq> [])"

datatype answer = Throws | Returns polled

text \<open>
  \<^verbatim>\<open>m.paymentMethod === name\<close> and \<^verbatim>\<open>m.paymentMethod === name && m.destination\<close>, the
  callbacks of lines 103, 104, 132 and 133 and the tests of lines 141 and 148.  They throw
  on an element that is \<open>null\<close>.  \<open>read_property\<close> reads a property of a value that is
  known not to be \<open>null\<close>.
\<close>

definition read_property :: "json \<Rightarrow> string \<Rightarrow> jsvalue" where
  "read_property m name = (case property (Value m) name of Inl e \<Rightarrow> Undefined | Inr v \<Rightarrow> v)"

definition is_method :: "string \<Rightarrow> json \<Rightarrow> js_error + bool" where
  "is_method name m =
     (case property (Value m) ''paymentMethod'' of
        Inl e \<Rightarrow> Inl e
      | Inr v \<Rightarrow> Inr (v = Value (JString name)))"

definition has_destination :: "string \<Rightarrow> json \<Rightarrow> js_error + bool" where
  "has_destination name m =
     (case is_method name m of
        Inl e \<Rightarrow> Inl e
      | Inr c \<Rightarrow> Inr (c \<and> js_truthy (read_property m ''destination'')))"

text \<open>
  \<open>Array.prototype.some\<close> and \<open>every\<close> with a callback that may throw: the elements are
  visited in order, up to the first that decides.
\<close>

fun array_some :: "(json \<Rightarrow> js_error + bool) \<Rightarrow> json list \<Rightarrow> js_error + bool" where
  "array_some f [] = Inr False"
| "array_some f (m # ms) =
     (case f m of Inl e \<Rightarrow> Inl e | Inr c \<Rightarrow> if c then Inr True else array_some f ms)"

fun array_every :: "(json \<Rightarrow> js_error + bool) \<Rightarrow> json list \<Rightarrow> js_error + bool" where
  "array_every f [] = Inr True"
| "array_every f (m # ms) =
     (case f m of Inl e \<Rightarrow> Inl e | Inr c \<Rightarrow> if c then array_every f ms else Inr False)"

text \<open>
  Lines 102 to 112 on a body of any shape: \<open>Inr True\<close> where the loop breaks, \<open>Inl\<close>
  where they throw.  Both \<open>hasLightning\<close> and \<open>hasOnchain\<close> are computed before either is
  looked at.
\<close>

definition stops :: "string \<Rightarrow> polled \<Rightarrow> js_error + bool" where
  "stops pm b =
     (case b of
        OtherBody c \<Rightarrow> if c then Inl TypeError else Inr False
      | ArrayBody ms \<Rightarrow>
          if ms = [] then Inr False
          else (case array_some (has_destination ''BTC-LightningNetwork'') ms of
                  Inl e \<Rightarrow> Inl e
                | Inr lightning \<Rightarrow>
                    (case array_some (has_destination ''BTC-Onchain'') ms of
                       Inl e \<Rightarrow> Inl e
                     | Inr onchain \<Rightarrow>
                         Inr ((pm = ''lightning'' \<and> lightning) \<or> (pm = ''onchain'' \<and> onchain)))))"

text \<open>
  The loop of lines 85 to 120 on such answers.  \<open>kept\<close> is the variable \<open>paymentMethods\<close>,
  \<open>tries\<close> is \<open>retries\<close>.  The body is assigned before lines 102 to 112 run, so that a
  body on which they throw is kept, and the \<open>catch\<close> of line 116 counts the attempt.
\<close>

record fetch_state =
  kept :: polled
  tries :: nat
  events :: "io_event list"

function fetch_loop :: "string \<Rightarrow> (nat \<Rightarrow> answer) \<Rightarrow> fetch_state \<Rightarrow> fetch_state" where
  "fetch_loop pm upstream st =
     (if tries st < maxRetries pm then
        (let waited = (if tries st > 0 then events st @ [Wait 2000] else events st);
             asked = waited @ [GetPaymentMethods]
         in case upstream (polls_in (events st)) of
              Throws \<Rightarrow>
                fetch_loop pm upstream (st\<lparr>tries := Suc (tries st), events := asked\<rparr>)
            | Returns b \<Rightarrow>
                if stops pm b = Inr True then st\<lparr>kept := b, events := asked\<rparr>
                else fetch_loop pm upstream
                       (st\<lparr>kept := b, tries := Suc (tries st), events := asked\<rparr>))
      else st)"
  by pat_completeness auto
termination
  by (relation "measure (\<lambda>(pm, upstream, st). maxRetries pm - tries st)") auto

declare fetch_loop.simps [simp del]

definition fetch :: "string \<Rightarrow> (nat \<Rightarrow> answer) \<Rightarrow> fetch_state" where
  "fetch pm upstream = fetch_loop pm upstream \<lparr>kept = null_body, tries = 0, events = []\<rparr>"

text \<open>
  A list of entries, or \<open>null\<close>, as the body it is.  On answers of this kind
  \<open>fetch_loop\<close> is \<open>poll_loop\<close>, which is proved below.
\<close>

definition optional :: "string \<Rightarrow> string option \<Rightarrow> (string \<times> json) list" where
  "optional name v = (case v of None \<Rightarrow> [] | Some s \<Rightarrow> [(name, JString s)])"

definition entry_json :: "method_entry \<Rightarrow> json" where
  "entry_json m =
     JObject ((''paymentMethod'', JString (paymentMethod m)) # optional ''destination'' (destination m)
       @ optional ''amount'' (amount m) @ optional ''cryptoAmount'' (cryptoAmount m))"

definition body_json :: "method_entry list option \<Rightarrow> polled" where
  "body_json r = (case r of None \<Rightarrow> null_body | Some ms \<Rightarrow> ArrayBody (map entry_json ms))"

definition answer_json :: "poll_response \<Rightarrow> answer" where
  "answer_json a = (case a of PollThrows \<Rightarrow> Throws | PollReturns r \<Rightarrow> Returns (body_json r))"

subsection \<open>The request, the invoice and the result\<close>

text \<open>
  The fields the handler reads from the request.  \<open>req_amount\<close> is \<open>None\<close> when the body has
  no amount or \<open>null\<close> for it (or there is no body), so that \<open>amount.toString()\<close> throws,
  and the text of the amount otherwise.  The description
  is \<open>Falsy\<close> (absent, \<open>null\<close>, \<open>''\<close>, 0, \<open>false\<close>), a string, or any other value, which has
  no \<open>replace\<close>.  \<open>req_paymentMethod\<close> is compared with \<open>'lightning'\<close> and \<open>'onchain'\<close>
  only, any other value is the unspecified method.
\<close>

datatype description = Falsy | Text jsstring | NoText

record invoice_request =
  http_method :: string
  req_amount :: "string option"
  req_currency :: "string option"
  req_description :: description
  req_paymentMethod :: string

text \<open>The body of the invoice-create call (lines 57 to 72).\<close>

record invoice_data =
  data_amount :: string
  data_currency :: "string option"
  checkout_paymentMethods :: "string list"
  expirationMinutes :: nat
  metadata_order_id :: string
  metadata_description :: jsstring

text \<open>
  The result.  \<open>Undefined\<close> is a field that was not set: \<open>res.json\<close> leaves it out.  The
  fields read from the invoice and from an entry are passed on as they are.
\<close>

record response_data =
  invoiceId :: jsvalue
  checkoutURL :: jsvalue
  expiresAt :: jsvalue
  status :: jsvalue
  lightningInvoice :: jsvalue
  fallbackToLightning :: "bool option"
  address :: jsvalue
  btcAmount :: jsvalue
  useCheckoutLink :: "bool option"
  onchainNotAvailable :: "bool option"
  message :: "string option"

datatype details = Thrown js_error | UpstreamDetail string

datatype body = NoBody | ErrorBody string "details option" | InvoiceBody response_data

type_synonym http_response = "nat \<times> body"

text \<open>
  The provider: the invoice-create call throws (\<open>Inl\<close>, with the detail of the error) or
  returns a body, and the poll number \<open>k\<close> (from 0) is answered with \<open>payment_methods k\<close>.
\<close>

record upstream =
  create_invoice :: "invoice_data \<Rightarrow> string + jsvalue"
  payment_methods :: "nat \<Rightarrow> answer"

text \<open>\<open>Date.now()\<close> written in decimal, for \<^verbatim>\<open>`order_${Date.now()}`\<close>.\<close>

function decimal :: "nat \<Rightarrow> string" where
  "decimal n =
     (if n < 10 then [''0123456789'' ! n]
      else decimal (n div 10) @ [''0123456789'' ! (n mod 10)])"
  by pat_completeness auto
termination
  by (relation "measure id") auto

declare decimal.simps [simp del]

definition invoiceData :: "invoice_request \<Rightarrow> nat \<Rightarrow> js_error + invoice_data" where
  "invoiceData req now =
     (case req_amount req of
        None \<Rightarrow> Inl TypeError
      | Some amount_text \<Rightarrow>
          (case req_description req of
             NoText \<Rightarrow> Inl TypeError
           | d \<Rightarrow>
               Inr \<lparr>data_amount = amount_text,
                    data_currency = req_currency req,
                    checkout_paymentMethods =
                      (if req_paymentMethod req = ''onchain''
                         then [''BTC-Onchain'', ''BTC-LightningNetwork'']
                       else if req_paymentMethod req = ''lightning'' then [''BTC-LightningNetwork'']
                       else [''BTC-LightningNetwork'', ''BTC-Onchain'']),
                    expirationMinutes = 15,
                    metadata_order_id = ''order_'' @ decimal now,
                    metadata_description =
                      metadata_description_of (case d of Text s \<Rightarrow> Some s | _ \<Rightarrow> None)\<rparr>))"

subsection \<open>Shaping the result (lines 122 to 162)\<close>

text \<open>Lines 122 to 127.  Reading \<open>invoice.id\<close> throws where the invoice is \<open>null\<close>.\<close>

definition initial_response :: "jsvalue \<Rightarrow> js_error + response_data" where
  "initial_response invoice =
     (case property invoice ''id'' of
        Inl e \<Rightarrow> Inl e
      | Inr i \<Rightarrow>
          (case property invoice ''checkoutLink'' of
             Inl e \<Rightarrow> Inl e
           | Inr link \<Rightarrow>
               (case property invoice ''expirationTime'' of
                  Inl e \<Rightarrow> Inl e
                | Inr expires \<Rightarrow>
                    (case property invoice ''status'' of
                       Inl e \<Rightarrow> Inl e
                     | Inr s \<Rightarrow>
                         Inr \<lparr>invoiceId = i, checkoutURL = link, expiresAt = expires, status = s,
                              lightningInvoice = Undefined, fallbackToLightning = None,
                              address = Undefined, btcAmount = Undefined, useCheckoutLink = None,
                              onchainNotAvailable = None, message = None\<rparr>))))"

text \<open>
  Lines 129 to 138: the value of \<open>onchainNotAvailable\<close>.  These lines stand outside the
  \<open>try\<close> of the loop.  Here \<open>hasOnchain\<close> does not look at the destination.
\<close>

definition onchain_not_available :: "string \<Rightarrow> polled \<Rightarrow> js_error + bool" where
  "onchain_not_available pm b =
     (case b of
        OtherBody c \<Rightarrow> if c then Inl TypeError else Inr False
      | ArrayBody ms \<Rightarrow>
          if ms = [] then Inr False
          else (case array_every (is_method ''BTC-LightningNetwork'') ms of
                  Inl e \<Rightarrow> Inl e
                | Inr only_lightning \<Rightarrow>
                    (case array_some (is_method ''BTC-Onchain'') ms of
                       Inl e \<Rightarrow> Inl e
                     | Inr onchain \<Rightarrow> Inr (pm = ''onchain'' \<and> only_lightning \<and> \<not> onchain))))"

text \<open>\<open>a || b\<close>.\<close>

definition or_else :: "jsvalue \<Rightarrow> jsvalue \<Rightarrow> jsvalue" where
  "or_else a b = (if js_truthy a then a else b)"

text \<open>The body of the \<open>for\<close> loop over the entries (lines 141 to 151), and the loop.\<close>

definition add_method :: "string \<Rightarrow> bool \<Rightarrow> response_data \<Rightarrow> json \<Rightarrow> js_error + response_data" where
  "add_method pm not_available r m =
     (case has_destination ''BTC-LightningNetwork'' m of
        Inl e \<Rightarrow> Inl e
      | Inr lightning \<Rightarrow>
          if lightning then
            Inr (if pm = ''lightning'' then r\<lparr>lightningInvoice := read_property m ''destination''\<rparr>
                 else if pm = ''onchain'' \<and> not_available
                   then r\<lparr>lightningInvoice := read_property m ''destination'',
                          fallbackToLightning := Some True\<rparr>
                 else r)
          else (case has_destination ''BTC-Onchain'' m of
                  Inl e \<Rightarrow> Inl e
                | Inr onchain \<Rightarrow>
                    Inr (if onchain then
                           r\<lparr>address := read_property m ''destination'',
                             btcAmount := or_else (read_property m ''amount'')
                               (or_else (read_property m ''cryptoAmount'')
                                  (Value (JString ''0.00000000'')))\<rparr>
                         else r)))"

fun add_methods ::
  "string \<Rightarrow> bool \<Rightarrow> response_data \<Rightarrow> json list \<Rightarrow> js_error + response_data" where
  "add_methods pm not_available r [] = Inr r"
| "add_methods pm not_available r (m # ms) =
     (case add_method pm not_available r m of
        Inl e \<Rightarrow> Inl e
      | Inr r' \<Rightarrow> add_methods pm not_available r' ms)"

text \<open>Lines 129 to 162, from the result of lines 122 to 127 and the body the loop kept.\<close>

definition responseData :: "string \<Rightarrow> response_data \<Rightarrow> polled \<Rightarrow> js_error + response_data" where
  "responseData pm r0 b =
     (case onchain_not_available pm b of
        Inl e \<Rightarrow> Inl e
      | Inr not_available \<Rightarrow>
          (case (case b of ArrayBody ms \<Rightarrow> add_methods pm not_available r0 ms
                 | OtherBody c \<Rightarrow> Inr r0) of
             Inl e \<Rightarrow> Inl e
           | Inr r1 \<Rightarrow>
               Inr (if not_available then
                      r1\<lparr>useCheckoutLink := Some True, onchainNotAvailable := Some True,
                         message := Some
                           ''On-chain payments not available. Use checkout page or try Lightning.''\<rparr>
                    else if \<not> js_truthy (lightningInvoice r1) \<and> \<not> js_truthy (address r1) then
                      r1\<lparr>useCheckoutLink := Some True,
                         message := Some ''Payment details not available. Use checkout page.''\<rparr>
                    else r1)))"

subsection \<open>The handler (lines 35 to 173)\<close>

text \<open>The \<open>catch\<close> of lines 166 to 171.\<close>

definition failed :: "details \<Rightarrow> http_response" where
  "failed d = (500, ErrorBody ''Failed to create invoice'' (Some d))"

definition handler :: "upstream \<Rightarrow> nat \<Rightarrow> invoice_request \<Rightarrow> http_response" where
  "handler up now req =
     (if http_method req = ''OPTIONS'' then (200, NoBody)
      else if http_method req \<noteq> ''POST'' then (405, ErrorBody ''Method not allowed'' None)
      else case invoiceData req now of
        Inl e \<Rightarrow> failed (Thrown e)
      | Inr d \<Rightarrow>
          (case create_invoice up d of
             Inl detail \<Rightarrow> failed (UpstreamDetail detail)
           | Inr invoice \<Rightarrow>
               (case initial_response invoice of
                  Inl e \<Rightarrow> failed (Thrown e)
                | Inr r0 \<Rightarrow>
                    (case responseData (req_paymentMethod req) r0
                            (kept (fetch (req_paymentMethod req) (payment_methods up))) of
                       Inl e \<Rightarrow> failed (Thrown e)
                     | Inr r \<Rightarrow> (200, InvoiceBody r)))))"

subsection \<open>Predicates on the body the loop kept\<close>

text \<open>
  A body the lines 129 to 152 can read: no array and skipped by the test of line 131, or
  an array with no \<open>null\<close> among its elements.
\<close>

definition readable :: "polled \<Rightarrow> bool" where
  "readable b = (case b of OtherBody c \<Rightarrow> \<not> c | ArrayBody ms \<Rightarrow> JNull \<notin> set ms)"

text \<open>The body is a list with an entry of the method \<open>name\<close> that has a destination.\<close>

definition offers :: "string \<Rightarrow> polled \<Rightarrow> bool" where
  "offers name b =
     (case b of OtherBody c \<Rightarrow> False
      | ArrayBody ms \<Rightarrow> list_ex (\<lambda>m. has_destination name m = Inr True) ms)"

text \<open>Every element of the list is an entry of the method \<open>name\<close>.\<close>

definition only_entries_of :: "string \<Rightarrow> json list \<Rightarrow> bool" where
  "only_entries_of name ms = list_all (\<lambda>m. is_method name m = Inr True) ms"

subsection \<open>Sample requests and upstream behaviours\<close>



text \<open>
  Four bodies of the payment-methods answer: a Lightning entry alone; an on-chain entry
  whose address the provider has not made yet, beside a Lightning entry; a Lightning entry
  with no destination yet; an on-chain entry alone.
\<close>

definition lightning_only :: "json list" where
  "lightning_only =
     [JObject [(''paymentMethod'', JString ''BTC-LightningNetwork''),
        (''destination'', JString ''lnbcrt100u1example''), (''amount'', JString ''0.00012000'')]]"

definition address_pending :: "json list" where
  "address_pending =
     [JObject [(''paymentMethod'', JString ''BTC-Onchain''), (''destination'', JNull),
        (''amount'', JString ''0.00012000'')],
      JObject [(''paymentMethod'', JString ''BTC-LightningNetwork''),
        (''destination'', JString ''lnbcrt100u1example''), (''amount'', JString ''0.00012000'')]]"

definition invoice_pending :: "json list" where
  "invoice_pending =
     [JObject [(''paymentMethod'', JString ''BTC-LightningNetwork''), (''destination'', JString ''''),
        (''amount'', JString ''0.00012000'')]]"

definition onchain_only :: "json list" where
  "onchain_only =
     [JObject [(''paymentMethod'', JString ''BTC-Onchain''),
        (''destination'', JString ''bcrt1qexample''), (''amount'', JString ''0.00012000'')]]"

definition sample_invoice :: jsvalue where
  "sample_invoice =
     Value (JObject [(''id'', JString ''inv_1''),
       (''checkoutLink'', JString ''https://pay.example/i/inv_1''),
       (''expirationTime'', JNumber 1700000900), (''status'', JString ''New'')])"

definition request_for :: "string \<Rightarrow> invoice_request" where
  "request_for pm = \<lparr>http_method = ''POST'', req_amount = Some ''10'',
     req_currency = Some ''USD'', req_description = Falsy, req_paymentMethod = pm\<rparr>"

text \<open>An upstream that creates \<open>inv_1\<close> and answers every poll the same way.\<close>

definition answering :: "answer \<Rightarrow> upstream" where
  "answering a = \<lparr>create_invoice = (\<lambda>d. Inr sample_invoice), payment_methods = (\<lambda>k. a)\<rparr>"

section \<open>Node's \<open>crypto\<close> and \<open>Buffer\<close>, as far as the webhook handlers use them\<close>

text \<open>
  The handlers call \<open>crypto.createHmac\<close>, \<open>Buffer.from(_, 'hex')\<close> and
  \<open>crypto.timingSafeEqual\<close>.  These are parts of the runtime, not of the repository; they
  are modelled from their definitions: HMAC from RFC 2104, SHA-256 from FIPS 180-4, and the
  two \<open>Buffer\<close> operations from the Node.js documentation.
\<close>

type_synonym byte = "8 word"

definition bytes :: "string \<Rightarrow> byte list" where
  "bytes s = map of_char s"

subsection \<open>Hexadecimal\<close>

text \<open>\<open>digest('hex')\<close> writes two lower-case digits for every byte.\<close>

definition hex_digit :: "nat \<Rightarrow> char" where
  "hex_digit n = ''0123456789abcdef'' ! n"

definition hex_encode :: "byte list \<Rightarrow> string" where
  "hex_encode bs = concat (map (\<lambda>b. [hex_digit (unat b div 16), hex_digit (unat b mod 16)]) bs)"

text \<open>
  \<open>Buffer.from(s, 'hex')\<close> reads two characters for every byte, digits in either case,
  and stops without an error at the first pair that is not two hexadecimal digits; a last
  character without a partner is dropped.
\<close>

definition unhex :: "char \<Rightarrow> nat option" where
  "unhex c =
     (let n = (of_char c :: nat)
      in if 48 \<le> n \<and> n \<le> 57 then Some (n - 48)
         else if 97 \<le> n \<and> n \<le> 102 then Some (n - 87)
         else if 65 \<le> n \<and> n \<le> 70 then Some (n - 55)
         else None)"

fun hex_decode :: "string \<Rightarrow> byte list" where
  "hex_decode (a # b # cs) =
     (case unhex a of
        None \<Rightarrow> []
      | Some h \<Rightarrow> (case unhex b of
                     None \<Rightarrow> []
                   | Some l \<Rightarrow> word_of_nat (16 * h + l) # hex_decode cs))"
| "hex_decode cs = []"

text \<open>\<open>crypto.timingSafeEqual\<close> throws a RangeError on buffers of different lengths.\<close>

definition timingSafeEqual :: "byte list \<Rightarrow> byte list \<Rightarrow> js_error + bool" where
  "timingSafeEqual a b = (if length a \<noteq> length b then Inl RangeError else Inr (a = b))"

subsection \<open>SHA-256\<close>

text \<open>
  A 32-bit word is an integer below \<open>2 ^ 32\<close>; sums are reduced modulo \<open>2 ^ 32\<close> where they
  are formed.  \<open>rotr n x\<close> rotates \<open>x\<close> to the right by \<open>n\<close> bits.
\<close>

definition add32 :: "int \<Rightarrow> int \<Rightarrow> int" where
  "add32 x y = (x + y) mod 2 ^ 32"

definition rotr :: "nat \<Rightarrow> int \<Rightarrow> int" where
  "rotr n x = x div 2 ^ n + (x mod 2 ^ n) * 2 ^ (32 - n)"

definition sha_ch :: "int \<Rightarrow> int \<Rightarrow> int \<Rightarrow> int" where
  "sha_ch x y z = (x AND y) XOR ((2 ^ 32 - 1 - x) AND z)"

definition sha_maj :: "int \<Rightarrow> int \<Rightarrow> int \<Rightarrow> int" where
  "sha_maj x y z = (x AND y) XOR (x AND z) XOR (y AND z)"

definition big_sigma0 :: "int \<Rightarrow> int" where
  "big_sigma0 x = rotr 2 x XOR rotr 13 x XOR rotr 22 x"

definition big_sigma1 :: "int \<Rightarrow> int" where
  "big_sigma1 x = rotr 6 x XOR rotr 11 x XOR rotr 25 x"

definition small_sigma0 :: "int \<Rightarrow> int" where
  "small_sigma0 x = rotr 7 x XOR rotr 18 x XOR x div 2 ^ 3"

definition small_sigma1 :: "int \<Rightarrow> int" where
  "small_sigma1 x = rotr 17 x XOR rotr 19 x XOR x div 2 ^ 10"

text \<open>The round constants and the initial hash value, in decimal.\<close>

definition round_constants :: "int list" where
  "round_constants =
    [1116352408, 1899447441, 3049323471, 3921009573,
     961987163, 1508970993, 2453635748, 2870763221,
     3624381080, 310598401, 607225278, 1426881987,
     1925078388, 2162078206, 2614888103, 3248222580,
     3835390401, 4022224774, 264347078, 604807628,
     770255983, 1249150122, 1555081692, 1996064986,
     2554220882, 2821834349, 2952996808, 3210313671,
     3336571891, 3584528711, 113926993, 338241895,
     666307205, 773529912, 1294757372, 1396182291,
     1695183700, 1986661051, 2177026350, 2456956037,
     2730485921, 2820302411, 3259730800, 3345764771,
     3516065817, 3600352804, 4094571909, 275423344,
     430227734, 506948616, 659060556, 883997877,
     958139571, 1322822218, 1537002063, 1747873779,
     1955562222, 2024104815, 2227730452, 2361852424,
     2428436474, 2756734187, 3204031479, 3329325298]"

definition initial_hash :: "int list" where
  "initial_hash =
    [1779033703, 3144134277, 1013904242, 2773480762,
     1359893119, 2600822924, 528734635, 1541459225]"

text \<open>
  The message schedule: \<open>w\<close> holds the last sixteen words, the oldest first; \<open>schedule n w\<close>
  are the next \<open>n\<close> words.
\<close>

fun schedule :: "nat \<Rightarrow> int list \<Rightarrow> int list" where
  "schedule 0 w = []"
| "schedule (Suc n) w =
     (let x = add32 (add32 (add32 (small_sigma1 (w ! 14)) (w ! 9)) (small_sigma0 (w ! 1))) (w ! 0)
      in x # schedule n (tl w @ [x]))"

fun rounds :: "int list \<Rightarrow> int list \<Rightarrow> int list \<Rightarrow> int list" where
  "rounds [a, b, c, d, e, f, g, h] (k # ks) (w # ws) =
     (let t1 = (h + big_sigma1 e + sha_ch e f g + k + w) mod 2 ^ 32;
          t2 = big_sigma0 a + sha_maj a b c
      in rounds [add32 t1 t2, a, b, c, add32 d t1, e, f, g] ks ws)"
| "rounds s ks ws = s"

definition compress :: "int list \<Rightarrow> int list \<Rightarrow> int list" where
  "compress h block = map2 add32 h (rounds h round_constants (block @ schedule 48 block))"

text \<open>Padding, then the bytes taken four at a time as big-endian words.\<close>

definition length_bytes :: "nat \<Rightarrow> byte list" where
  "length_bytes n = map (\<lambda>i. word_of_int (int n div 2 ^ (8 * (7 - i)))) [0..<8]"

definition pad :: "byte list \<Rightarrow> byte list" where
  "pad m = m @ [128] @ replicate ((119 - length m mod 64) mod 64) 0 @ length_bytes (8 * length m)"

fun words :: "byte list \<Rightarrow> int list" where
  "words (a # b # c # d # rest) =
     (uint a * 2 ^ 24 + uint b * 2 ^ 16 + uint c * 2 ^ 8 + uint d) # words rest"
| "words rest = []"

fun blocks :: "int list \<Rightarrow> int list \<Rightarrow> int list" where
  "blocks h [] = h"
| "blocks h ws = blocks (compress h (take 16 ws)) (drop 16 ws)"

definition word_bytes :: "int \<Rightarrow> byte list" where
  "word_bytes x =
     [word_of_int (x div 2 ^ 24), word_of_int (x div 2 ^ 16), word_of_int (x div 2 ^ 8),
      word_of_int x]"

definition sha256 :: "byte list \<Rightarrow> byte list" where
  "sha256 m = concat (map word_bytes (blocks initial_hash (words (pad m))))"

subsection \<open>HMAC\<close>

definition hmac_sha256 :: "byte list \<Rightarrow> byte list \<Rightarrow> byte list" where
  "hmac_sha256 key m =
     (let k0 = (if 64 < length key then sha256 key else key);
          k = k0 @ replicate (64 - length k0) 0
      in sha256 (map (\<lambda>b. b XOR 92) k @ sha256 (map (\<lambda>b. b XOR 54) k @ m)))"

text \<open>
  \<open>crypto.createHmac(algorithm, key)\<close> throws a TypeError when the key is \<open>undefined\<close>
  and "Invalid digest" when OpenSSL has no digest of that name.  The digests are a
  parameter of the model; \<open>node_digests\<close> are those of Node.js as far as the sources name
  them: \<open>sha256\<close> is a digest, \<open>sha266\<close> is none.  No handler asks for another name.
\<close>

type_synonym digest_table = "string \<Rightarrow> (byte list \<Rightarrow> byte list \<Rightarrow> byte list) option"

definition createHmac ::
  "digest_table \<Rightarrow> string \<Rightarrow> string option \<Rightarrow> js_error + (byte list \<Rightarrow> byte list)" where
  "createHmac digests algorithm key =
     (case key of
        None \<Rightarrow> Inl TypeError
      | Some k \<Rightarrow> (case digests algorithm of
                     None \<Rightarrow> Inl InvalidDigest
                   | Some mac \<Rightarrow> Inr (mac (bytes k))))"

definition node_digests :: digest_table where
  "node_digests algorithm = (if algorithm = ''sha256'' then Some hmac_sha256 else None)"

section \<open>The stateful server (server.js)\<close>

subsection \<open>\<open>paymentStore\<close> (line 18)\<close>

text \<open>
  A \<open>Map\<close> holds its entries in the order of their insertion.  Keys are compared as
  \<open>Map\<close> does: strings, numbers and booleans by value, an array or an object by identity.
  A key that is an array or object comes fresh out of \<open>JSON.parse\<close>, so it is the same as
  no key already in the map.
\<close>

type_synonym store = "(json \<times> string) list"

fun by_value :: "json \<Rightarrow> bool" where
  "by_value (JArray xs) = False"
| "by_value (JObject members) = False"
| "by_value k = True"

fun store_set :: "json \<Rightarrow> string \<Rightarrow> store \<Rightarrow> store" where
  "store_set k v [] = [(k, v)]"
| "store_set k v ((k', v') # rest) =
     (if by_value k \<and> k' = k then (k', v) # rest else (k', v') # store_set k v rest)"

definition store_get :: "string \<Rightarrow> store \<Rightarrow> string option" where
  "store_get k s = map_of s (JString k)"

text \<open>What a handler does to \<open>crypto\<close> and to the store, in order.\<close>

datatype effect = CreateHmac string | StoreSet json string | StoreGet string

subsection \<open>The webhook (lines 22 to 55)\<close>

text \<open>
  \<open>signature\<close> is the header \<open>paidly-signature\<close>.  \<open>raw_body\<close> is \<open>req.body\<close>: the
  bytes of the body where \<open>express.raw\<close> read them, and \<open>None\<close> where the content type is
  not \<open>application/json\<close> and \<open>req.body\<close> is no buffer.  \<open>parsed_body\<close> is the value of
  \<open>JSON.parse(req.body.toString())\<close>, \<open>None\<close> where it throws a SyntaxError.
\<close>

record webhook_request =
  signature :: "string option"
  raw_body :: "byte list option"
  parsed_body :: "json option"

text \<open>Lines 28 to 33: \<open>Inl\<close> what is thrown, \<open>Inr\<close> what \<open>timingSafeEqual\<close> returns.\<close>

definition check_signature ::
  "digest_table \<Rightarrow> string \<Rightarrow> string option \<Rightarrow> byte list option \<Rightarrow> string
    \<Rightarrow> js_error + bool" where
  "check_signature digests algorithm secret body sig =
     (case createHmac digests algorithm secret of
        Inl e \<Rightarrow> Inl e
      | Inr hmac \<Rightarrow>
          (case body of
             None \<Rightarrow> Inl TypeError
           | Some b \<Rightarrow>
               (let expectedSignature = hex_encode (hmac b);
                    trusted = hex_decode expectedSignature;
                    untrusted = hex_decode sig
                in timingSafeEqual trusted untrusted)))"

text \<open>Lines 39 to 49: the order id to mark as paid, if the event names one.\<close>

definition paid_order :: "json option \<Rightarrow> js_error + jsvalue" where
  "paid_order parsed =
     (case parsed of
        None \<Rightarrow> Inl SyntaxError
      | Some event \<Rightarrow>
          (case property (Value event) ''event'' of
             Inl e \<Rightarrow> Inl e
           | Inr name \<Rightarrow>
               if name = Value (JString ''invoice_paid'') then
                 (case property (Value event) ''data'' of
                    Inl e \<Rightarrow> Inl e
                  | Inr invoice \<Rightarrow>
                      (case property invoice ''metadata'' of
                         Inl e \<Rightarrow> Inl e
                       | Inr metadata \<Rightarrow> property metadata ''OrderId''))
               else Inr Undefined))"

record webhook_result =
  status_code :: nat
  sent :: string
  store_after :: store
  effects :: "effect list"

definition paidly_webhook ::
  "digest_table \<Rightarrow> string option \<Rightarrow> store \<Rightarrow> webhook_request \<Rightarrow> webhook_result" where
  "paidly_webhook digests secret paymentStore req =
     (let missing = \<lparr>status_code = 400, sent = ''Signature missing.'',
                       store_after = paymentStore, effects = []\<rparr>;
          failed = \<lparr>status_code = 500, sent = ''Internal server error.'',
                      store_after = paymentStore, effects = [CreateHmac ''sha266'']\<rparr>;
          received = \<lparr>status_code = 200, sent = ''Webhook received and verified'',
                        store_after = paymentStore, effects = [CreateHmac ''sha266'']\<rparr>
      in case signature req of
           None \<Rightarrow> missing
         | Some sig \<Rightarrow>
             if sig = [] then missing
             else
               (case check_signature digests ''sha266'' secret (raw_body req) sig of
                  Inl e \<Rightarrow> failed
                | Inr False \<Rightarrow>
                    \<lparr>status_code = 401, sent = ''Invalid signature.'',
                     store_after = paymentStore, effects = [CreateHmac ''sha266'']\<rparr>
                | Inr True \<Rightarrow>
                    (case paid_order (parsed_body req) of
                       Inl e \<Rightarrow> failed
                     | Inr Undefined \<Rightarrow> received
                     | Inr (Value orderId) \<Rightarrow>
                         if js_truthy (Value orderId) then
                           received\<lparr>store_after := store_set orderId ''Paid'' paymentStore,
                             effects := [CreateHmac ''sha266'', StoreSet orderId ''Paid'']\<rparr>
                         else received)))"

subsection \<open>Creating a payment (lines 62 to 116)\<close>

text \<open>
  The answers of the provider are inputs: \<open>created\<close> is \<open>createResponse.data\<close>,
  \<open>methods\<close> is \<open>fetchResponse.data\<close>, \<open>Inl\<close> where \<open>axios\<close> throws.  \<open>pay_amount\<close>
  is the \<open>amount\<close> of the request body; \<open>amount.toFixed(2)\<close> throws unless it is a
  number.
\<close>

record payment_upstream =
  created :: "js_error + jsvalue"
  methods :: "js_error + jsvalue"

datatype payment_body =
  PaymentError string
  | PaymentCreated string jsvalue jsvalue

record payment_result =
  payment_status :: nat
  payment_sent :: payment_body
  payment_store :: store
  payment_effects :: "effect list"

text \<open>\<open>paymentMethods.find(p => p.paymentMethod === name)\<close> on the elements of an array.\<close>

fun find_method :: "string \<Rightarrow> json list \<Rightarrow> js_error + jsvalue" where
  "find_method name [] = Inr Undefined"
| "find_method name (p # ps) =
     (case property (Value p) ''paymentMethod'' of
        Inl e \<Rightarrow> Inl e
      | Inr m \<Rightarrow> if m = Value (JString name) then Inr (Value p) else find_method name ps)"

text \<open>\<open>found ? found.field : null\<close>\<close>

definition field_or_null :: "jsvalue \<Rightarrow> string \<Rightarrow> js_error + jsvalue" where
  "field_or_null found_entry field =
     (if js_truthy found_entry then property found_entry field else Inr (Value JNull))"

text \<open>
  Lines 98 to 110: the body of the answer (\<open>orderId\<close>, \<open>lightningInvoice\<close>,
  \<open>onchainAddress\<close>), from the payment methods.
\<close>

definition payment_details :: "string \<Rightarrow> jsvalue \<Rightarrow> js_error + payment_body" where
  "payment_details orderId fetched =
     (case fetched of
        Value (JArray ps) \<Rightarrow>
          (case find_method ''BTC-LightningNetwork'' ps of
             Inl e \<Rightarrow> Inl e
           | Inr lightningPayment \<Rightarrow>
               (case field_or_null lightningPayment ''destination'' of
                  Inl e \<Rightarrow> Inl e
                | Inr invoice_text \<Rightarrow>
                    (case find_method ''BTC'' ps of
                       Inl e \<Rightarrow> Inl e
                     | Inr onchainPayment \<Rightarrow>
                         (case field_or_null onchainPayment ''address'' of
                            Inl e \<Rightarrow> Inl e
                          | Inr onchainAddress \<Rightarrow>
                              Inr (PaymentCreated orderId invoice_text onchainAddress)))))
      | other \<Rightarrow> Inl TypeError)"

definition is_number :: "jsvalue \<Rightarrow> bool" where
  "is_number v = (case v of Value (JNumber n) \<Rightarrow> True | other \<Rightarrow> False)"

definition create_payment ::
  "bool \<Rightarrow> nat \<Rightarrow> payment_upstream \<Rightarrow> store \<Rightarrow> jsvalue \<Rightarrow> payment_result" where
  "create_payment configured now upstream paymentStore pay_amount =
     (let failed = (\<lambda>s fx. \<lparr>payment_status = 500,
                     payment_sent = PaymentError ''Failed to process payment invoice.'',
                     payment_store = s, payment_effects = fx\<rparr>);
          orderId = ''ORDER-'' @ decimal now
      in if \<not> configured then
           \<lparr>payment_status = 500, payment_sent = PaymentError ''Server configuration error.'',
            payment_store = paymentStore, payment_effects = []\<rparr>
         else if \<not> is_number pay_amount then failed paymentStore []
         else
           (case created upstream of
              Inl e \<Rightarrow> failed paymentStore []
            | Inr data \<Rightarrow>
                (case property data ''id'' of
                   Inl e \<Rightarrow> failed paymentStore []
                 | Inr newInvoiceId \<Rightarrow>
                     (let stored = store_set (JString orderId) ''New'' paymentStore;
                          fx = [StoreSet (JString orderId) ''New'']
                      in case methods upstream of
                           Inl e \<Rightarrow> failed stored fx
                         | Inr fetched \<Rightarrow>
                             (case payment_details orderId fetched of
                                Inl e \<Rightarrow> failed stored fx
                              | Inr answer \<Rightarrow>
                                  \<lparr>payment_status = 200, payment_sent = answer,
                                   payment_store = stored, payment_effects = fx\<rparr>)))))"

subsection \<open>Asking for the status (lines 119 to 123)\<close>

record status_result =
  status_status :: nat
  status_sent :: string
  status_effects :: "effect list"

definition check_status :: "store \<Rightarrow> string \<Rightarrow> status_result" where
  "check_status paymentStore orderId =
     \<lparr>status_status = 200,
      status_sent = (case store_get orderId paymentStore of
                       None \<Rightarrow> ''Not Found''
                     | Some stored \<Rightarrow> if stored = [] then ''Not Found'' else stored),
      status_effects = [StoreGet orderId]\<rparr>"

subsection \<open>The server as a state machine\<close>

record server_config =
  cfg_digests :: digest_table
  cfg_secret :: "string option"
  cfg_configured :: bool

datatype request =
  PostWebhook webhook_request
  | PostCreatePayment nat payment_upstream jsvalue
  | GetCheckStatus string

fun serve :: "server_config \<Rightarrow> store \<Rightarrow> request \<Rightarrow> store" where
  "serve cfg s (PostWebhook req) =
     store_after (paidly_webhook (cfg_digests cfg) (cfg_secret cfg) s req)"
| "serve cfg s (PostCreatePayment now upstream pay_amount) =
     payment_store (create_payment (cfg_configured cfg) now upstream s pay_amount)"
| "serve cfg s (GetCheckStatus orderId) = s"

definition served :: "server_config \<Rightarrow> request list \<Rightarrow> store" where
  "served cfg requests = foldl (serve cfg) [] requests"

text \<open>The invariant of the store: every value is \<open>"New"\<close> or \<open>"Paid"\<close>.\<close>

definition new_or_paid :: "store \<Rightarrow> bool" where
  "new_or_paid s = list_all (\<lambda>entry. snd entry = ''New'' \<or> snd entry = ''Paid'') s"

section \<open>The stateless server (second file of api/check-status.js)\<close>

text \<open>
  The webhook of this variant (lines 71 to 102 of that file) asks for the digest
  \<open>sha256\<close> and keeps no store.  After the check it parses the body, and on an
  \<open>invoice_paid\<close> event it reads \<open>event.data.id\<close> for the log.
\<close>

definition log_event :: "json option \<Rightarrow> js_error + unit" where
  "log_event parsed =
     (case parsed of
        None \<Rightarrow> Inl SyntaxError
      | Some event \<Rightarrow>
          (case property (Value event) ''event'' of
             Inl e \<Rightarrow> Inl e
           | Inr name \<Rightarrow>
               if name = Value (JString ''invoice_paid'') then
                 (case property (Value event) ''data'' of
                    Inl e \<Rightarrow> Inl e
                  | Inr data \<Rightarrow>
                      (case property data ''id'' of Inl e \<Rightarrow> Inl e | Inr i \<Rightarrow> Inr ()))
               else Inr ()))"

definition stateless_webhook ::
  "digest_table \<Rightarrow> string option \<Rightarrow> webhook_request \<Rightarrow> nat \<times> string" where
  "stateless_webhook digests secret req =
     (case signature req of
        None \<Rightarrow> (400, ''Signature missing.'')
      | Some sig \<Rightarrow>
          if sig = [] then (400, ''Signature missing.'')
          else
            (case check_signature digests ''sha256'' secret (raw_body req) sig of
               Inl e \<Rightarrow> (500, ''Internal server error.'')
             | Inr False \<Rightarrow> (401, ''Invalid signature.'')
             | Inr True \<Rightarrow>
                 (case log_event (parsed_body req) of
                    Inl e \<Rightarrow> (500, ''Internal server error.'')
                  | Inr done \<Rightarrow> (200, ''Webhook received and verified''))))"

section \<open>Sample deliveries and requests\<close>







definition node_server :: server_config where
  "node_server = \<lparr>cfg_digests = node_digests, cfg_secret = Some ''whsec_test'',
     cfg_configured = True\<rparr>"

text \<open>A provider that creates \<open>inv_1\<close> and knows one Lightning payment method for it.\<close>

definition provider :: payment_upstream where
  "provider = \<lparr>created = Inr (Value (JObject [(''id'', JString ''inv_1'')])),
     methods = Inr (Value (JArray [JObject [(''paymentMethod'', JString ''BTC-LightningNetwork''),
       (''destination'', JString ''lnbcrt100u1example'')]]))\<rparr>"

definition paid_event :: json where
  "paid_event =
     JObject [(''event'', JString ''invoice_paid''),
       (''data'', JObject [(''metadata'', JObject [(''OrderId'', JString ''ORDER-1'')])])]"

definition paid_event_body :: "byte list" where
  \<open>paid_event_body =
     bytes ''{"event":"invoice_paid","data":{"metadata":{"OrderId":"ORDER-1"}}}''\<close>

definition paid_delivery :: webhook_request where
  "paid_delivery = \<lparr>signature = Some ''91fe78145ed6f0c48384d5da5eedafba7c693ec50da632eb6f63bc7ba254c7af'',
     raw_body = Some paid_event_body, parsed_body = Some paid_event\<rparr>"

section \<open>Properties of \<open>sanitizeMetadata\<close>\<close>

subsection \<open>Properties of runs\<close>

lemma runs_concat: "concat (runs P s) = s"
  by (induction s) (auto split: list.splits)

lemma runs_nonempty: "r \<in> set (runs P s) \<Longrightarrow> r \<noteq> []"
  by (induction s arbitrary: r) (auto split: list.splits if_splits)

lemma runs_uniform: "r \<in> set (runs P s) \<Longrightarrow> x \<in> set r \<Longrightarrow> P x = P (hd r)"
proof (induction s arbitrary: r x)
  case Nil
  then show ?case by simp
next
  case (Cons a s)
  show ?case
  proof (cases "runs P s")
    case Nil
    with Cons.prems show ?thesis by simp
  next
    case (Cons q qs)
    have q: "q \<in> set (runs P s)" using Cons by simp
    show ?thesis
    proof (cases "P (hd q) = P a")
      case True
      with Cons.prems Cons Cons.IH [OF q] Cons.IH show ?thesis
        by (auto simp: Cons)
    next
      case False
      with Cons.prems Cons Cons.IH show ?thesis
        by (auto simp: Cons)
    qed
  qed
qed

text \<open>Maximality: two runs that follow each other differ on \<open>P\<close>.\<close>

fun alternating :: "('a \<Rightarrow> bool) \<Rightarrow> 'a list list \<Rightarrow> bool" where
  "alternating P (r # q # rs) = (P (hd r) \<noteq> P (hd q) \<and> alternating P (q # rs))"
| "alternating P _ = True"

lemma runs_hd: "runs P (x # xs) \<noteq> [] \<and> hd (hd (runs P (x # xs))) = x"
  by (auto split: list.splits)

lemma runs_maximal: "alternating P (runs P s)"
proof (induction s)
  case Nil
  then show ?case by simp
next
  case (Cons a s)
  show ?case
  proof (cases "runs P s")
    case Nil
    then show ?thesis by simp
  next
    case (Cons q qs)
    with Cons.IH show ?thesis
      by (cases qs) auto
  qed
qed

subsection \<open>The code against the wording\<close>

lemma replace_whitespace_step:
  "replace_whitespace (x # xs) =
     (if is_whitespace x
      then (if xs \<noteq> [] \<and> is_whitespace (hd xs) then replace_whitespace xs
            else 95 # replace_whitespace xs)
      else x # replace_whitespace xs)"
  by (cases xs) auto

lemma replace_whitespace_runs:
  "replace_whitespace s = concat (map underscore_run (runs is_whitespace s))"
proof (induction s)
  case Nil
  then show ?case by simp
next
  case (Cons x xs)
  show ?case
  proof (cases xs)
    case Nil
    then show ?thesis by (simp add: underscore_run_def)
  next
    case (Cons y ys)
    obtain r rs where r: "runs is_whitespace xs = r # rs" and hd: "hd r = y"
      using runs_hd [of is_whitespace y ys] Cons by (cases "runs is_whitespace xs") auto
    have xs: "xs \<noteq> []" "hd xs = hd r"
      using Cons hd by auto
    have ih: "replace_whitespace xs = underscore_run r @ concat (map underscore_run rs)"
      using Cons.IH r by simp
    have code: "replace_whitespace (x # xs) =
        (if is_whitespace x
         then (if is_whitespace (hd r) then replace_whitespace xs
               else 95 # replace_whitespace xs)
         else x # replace_whitespace xs)"
      using xs by (simp only: replace_whitespace_step) simp
    have wording: "concat (map underscore_run (runs is_whitespace (x # xs))) =
        (if is_whitespace (hd r) = is_whitespace x
         then underscore_run (x # r) @ concat (map underscore_run rs)
         else underscore_run [x] @ underscore_run r @ concat (map underscore_run rs))"
      using r by simp
    show ?thesis
      unfolding code wording ih by (simp add: underscore_run_def)
  qed
qed

lemma replace_whitespace_none: "\<not> list_ex is_whitespace (replace_whitespace s)"
  by (induction s rule: replace_whitespace.induct) (auto simp: is_whitespace_def)

text \<open>
  C9.  For every input string, \<open>sanitizeMetadata\<close> returns what the specification
  describes: every maximal run of whitespace replaced by one underscore, then every
  character outside \<open>[A-Za-z0-9_-]\<close> removed.  The result, and so the description sent as
  metadata, holds characters of \<open>[A-Za-z0-9_-]\<close> only.
\<close>

theorem sanitizeMetadata_spec:
  "sanitizeMetadata s = sanitize_spec s
   \<and> list_all is_metadata_char (sanitizeMetadata s)
   \<and> list_all is_metadata_char (metadata_description_of d)"
  by (simp add: sanitizeMetadata_def sanitize_spec_def remove_disallowed_def
      metadata_description_of_def replace_whitespace_runs list_all_iff)

theorem sanitizeMetadata_spec_witness:
  "sanitizeMetadata (js ''Two  coffees,\<newline> to go!'') =
     sanitize_spec (js ''Two  coffees,\<newline> to go!'')
   \<and> sanitizeMetadata (js ''Two  coffees,\<newline> to go!'') = js ''Two_coffees_to_go''
   \<and> list_all is_metadata_char (sanitizeMetadata (js ''Two  coffees,\<newline> to go!''))"
proof -
  have "sanitizeMetadata (js ''Two  coffees,\<newline> to go!'') = js ''Two_coffees_to_go''"
    by (simp add: sanitizeMetadata_def remove_disallowed_def js_def is_whitespace_def
        is_metadata_char_def)
  then show ?thesis
    using sanitizeMetadata_spec [of "js ''Two  coffees,\<newline> to go!''" None] by blast
qed

section \<open>Properties of the invoice handler\<close>

subsection \<open>The poll loop\<close>

lemma spaced_five:
  "spaced 5 =
     [GetPaymentMethods, Wait 2000, GetPaymentMethods, Wait 2000, GetPaymentMethods,
      Wait 2000, GetPaymentMethods, Wait 2000, GetPaymentMethods]"
  by (simp add: eval_nat_numeral)

lemma polls_in_spaced: "polls_in (spaced n) = n"
  by (induction n) (auto simp: polls_in_def)




lemma poll_loop_step:
  assumes "i < maxRetries pm"
  shows "poll_loop pm up \<lparr>paymentMethods = p, retries = i, trace = spaced i\<rparr> =
     (case up i of
        PollThrows \<Rightarrow>
          poll_loop pm up \<lparr>paymentMethods = p, retries = Suc i, trace = spaced (Suc i)\<rparr>
      | PollReturns r \<Rightarrow>
          if found pm r then \<lparr>paymentMethods = r, retries = i, trace = spaced (Suc i)\<rparr>
          else poll_loop pm up \<lparr>paymentMethods = r, retries = Suc i, trace = spaced (Suc i)\<rparr>)"
  using assms
  by (subst poll_loop.simps) (simp add: polls_in_spaced split: poll_response.splits)

lemma poll_loop_done:
  "\<not> retries st < maxRetries pm \<Longrightarrow> poll_loop pm up st = st"
  by (subst poll_loop.simps) simp











subsection \<open>The loop on answers of any shape\<close>

lemma property_not_null:
  "m \<noteq> JNull \<Longrightarrow> property (Value m) name = Inr (read_property m name)"
  by (cases m) (simp_all add: read_property_def)

lemma is_method_not_null:
  "m \<noteq> JNull \<Longrightarrow>
   is_method name m = Inr (read_property m ''paymentMethod'' = Value (JString name))"
  by (simp add: is_method_def property_not_null)

lemma has_destination_not_null:
  "m \<noteq> JNull \<Longrightarrow>
   has_destination name m =
     Inr (read_property m ''paymentMethod'' = Value (JString name)
          \<and> js_truthy (read_property m ''destination''))"
  by (simp add: has_destination_def is_method_not_null)

lemma is_method_null: "is_method name JNull = Inl TypeError"
  by (simp add: is_method_def)

lemma has_destination_null: "has_destination name JNull = Inl TypeError"
  by (simp add: has_destination_def is_method_def)

lemma array_some_total:
  "\<forall>m\<in>set ms. \<exists>c. f m = Inr c \<Longrightarrow>
   array_some f ms = Inr (list_ex (\<lambda>m. f m = Inr True) ms)"
  by (induction ms) auto

lemma array_every_total:
  "\<forall>m\<in>set ms. \<exists>c. f m = Inr c \<Longrightarrow>
   array_every f ms = Inr (list_all (\<lambda>m. f m = Inr True) ms)"
  by (induction ms) auto

lemma array_some_has_destination:
  "JNull \<notin> set ms \<Longrightarrow>
   array_some (has_destination name) ms
     = Inr (list_ex (\<lambda>m. has_destination name m = Inr True) ms)"
  by (rule array_some_total) (metis has_destination_not_null)

lemma array_some_is_method:
  "JNull \<notin> set ms \<Longrightarrow>
   array_some (is_method name) ms = Inr (list_ex (\<lambda>m. is_method name m = Inr True) ms)"
  by (rule array_some_total) (metis is_method_not_null)

lemma array_every_is_method:
  "JNull \<notin> set ms \<Longrightarrow>
   array_every (is_method name) ms = Inr (list_all (\<lambda>m. is_method name m = Inr True) ms)"
  by (rule array_every_total) (metis is_method_not_null)

lemma stops_readable:
  assumes "readable b"
  shows "stops pm b =
     Inr ((pm = ''lightning'' \<and> offers ''BTC-LightningNetwork'' b)
          \<or> (pm = ''onchain'' \<and> offers ''BTC-Onchain'' b))"
proof (cases b)
  case (OtherBody c)
  with assms show ?thesis by (simp add: stops_def readable_def offers_def)
next
  case (ArrayBody ms)
  with assms have "JNull \<notin> set ms" by (simp add: readable_def)
  then have "array_some (has_destination name) ms
      = Inr (list_ex (\<lambda>m. has_destination name m = Inr True) ms)" for name
    by (rule array_some_has_destination)
  then show ?thesis
    using ArrayBody by (simp add: stops_def offers_def)
qed

lemma fetch_loop_exhausted:
  "stops pm (kept st) \<noteq> Inr True \<Longrightarrow>
   tries (fetch_loop pm up st) = maxRetries pm \<Longrightarrow>
   stops pm (kept (fetch_loop pm up st)) \<noteq> Inr True"
proof (induction pm up st rule: fetch_loop.induct)
  case (1 pm up st)
  show ?case
  proof (cases "tries st < maxRetries pm")
    case False
    then show ?thesis using "1.prems"(1) by (subst fetch_loop.simps) simp
  next
    case True
    let ?asked = "(if tries st > 0 then events st @ [Wait 2000] else events st) @ [GetPaymentMethods]"
    show ?thesis
    proof (cases "up (polls_in (events st))")
      case Throws
      let ?st' = "st\<lparr>tries := Suc (tries st), events := ?asked\<rparr>"
      have eq: "fetch_loop pm up st = fetch_loop pm up ?st'"
        using True Throws by (subst fetch_loop.simps) (simp add: Let_def)
      have "stops pm (kept (fetch_loop pm up ?st')) \<noteq> Inr True"
        using "1.IH"(1) [OF True refl refl Throws] "1.prems" eq by simp
      then show ?thesis using eq by simp
    next
      case (Returns b)
      show ?thesis
      proof (cases "stops pm b = Inr True")
        case hit: True
        have "fetch_loop pm up st = st\<lparr>kept := b, events := ?asked\<rparr>"
          using True Returns hit by (subst fetch_loop.simps) (simp add: Let_def)
        then have "tries (fetch_loop pm up st) = tries st" by simp
        with True "1.prems"(2) show ?thesis by simp
      next
        case miss: False
        let ?st' = "st\<lparr>kept := b, tries := Suc (tries st), events := ?asked\<rparr>"
        have eq: "fetch_loop pm up st = fetch_loop pm up ?st'"
          using True Returns miss by (subst fetch_loop.simps) (simp add: Let_def)
        have "stops pm (kept (fetch_loop pm up ?st')) \<noteq> Inr True"
          using "1.IH"(2) [OF True refl refl Returns miss] "1.prems" eq miss by simp
        then show ?thesis using eq by simp
      qed
    qed
  qed
qed

lemma fetch_exhausted:
  "tries (fetch pm up) = maxRetries pm \<Longrightarrow> stops pm (kept (fetch pm up)) \<noteq> Inr True"
  unfolding fetch_def
  by (rule fetch_loop_exhausted) (simp_all add: stops_def null_body_def)

subsection \<open>The loop on lists of entries is this loop\<close>

lemma map_of_optional:
  "map_of (rev (optional name v)) k = (if k = name then map_option JString v else None)"
  by (simp add: optional_def split: option.splits)

lemma read_entry_json:
  "read_property (entry_json m) ''paymentMethod'' = Value (JString (paymentMethod m))"
  "read_property (entry_json m) ''destination''
     = (case destination m of None \<Rightarrow> Undefined | Some s \<Rightarrow> Value (JString s))"
  by (simp_all add: read_property_def entry_json_def map_add_def map_of_optional
      split: option.splits)

lemma has_destination_entry_json:
  "has_destination name (entry_json m)
     = Inr (paymentMethod m = name \<and> truthy (destination m))"
proof -
  have "entry_json m \<noteq> JNull" by (simp add: entry_json_def)
  then show ?thesis
    by (auto simp: has_destination_not_null read_entry_json truthy_def split: option.splits)
qed

lemma array_some_entries:
  "array_some (has_destination name) (map entry_json ms)
     = Inr (list_ex (\<lambda>m. paymentMethod m = name \<and> truthy (destination m)) ms)"
  by (induction ms) (auto simp: has_destination_entry_json)

lemma stops_body_json: "stops pm (body_json r) = Inr (found pm r)"
  by (cases r)
     (auto simp: stops_def body_json_def null_body_def found_def array_some_entries
        hasLightning_def hasOnchain_def)

lemma fetch_loop_step:
  assumes "i < maxRetries pm"
  shows "fetch_loop pm up \<lparr>kept = b, tries = i, events = spaced i\<rparr> =
     (case up i of
        Throws \<Rightarrow> fetch_loop pm up \<lparr>kept = b, tries = Suc i, events = spaced (Suc i)\<rparr>
      | Returns b' \<Rightarrow>
          if stops pm b' = Inr True then \<lparr>kept = b', tries = i, events = spaced (Suc i)\<rparr>
          else fetch_loop pm up \<lparr>kept = b', tries = Suc i, events = spaced (Suc i)\<rparr>)"
  using assms
  by (subst fetch_loop.simps) (simp add: polls_in_spaced split: answer.splits)

text \<open>
  Whatever the shape of the answers, the loop stays within the budget and waits once
  between two polls.
\<close>

lemma fetch_loop_events:
  "i \<le> maxRetries pm \<Longrightarrow>
   \<exists>n. i \<le> n \<and> n \<le> maxRetries pm \<and> (i < maxRetries pm \<longrightarrow> i < n)
     \<and> events (fetch_loop pm up \<lparr>kept = b, tries = i, events = spaced i\<rparr>) = spaced n"
proof (induction "maxRetries pm - i" arbitrary: i b)
  case 0
  then have "\<not> i < maxRetries pm" by simp
  then have "fetch_loop pm up \<lparr>kept = b, tries = i, events = spaced i\<rparr>
      = \<lparr>kept = b, tries = i, events = spaced i\<rparr>"
    by (subst fetch_loop.simps) simp
  with 0 show ?case by auto
next
  case (Suc d)
  then have less: "i < maxRetries pm" by simp
  have later: "\<exists>n. Suc i \<le> n \<and> n \<le> maxRetries pm
      \<and> events (fetch_loop pm up \<lparr>kept = b', tries = Suc i, events = spaced (Suc i)\<rparr>)
          = spaced n" for b'
  proof -
    have "d = maxRetries pm - Suc i" "Suc i \<le> maxRetries pm"
      using Suc.hyps(2) less by simp_all
    from Suc.hyps(1) [OF this, of b'] show ?thesis by blast
  qed
  have finish: "\<exists>n. i \<le> n \<and> n \<le> maxRetries pm \<and> (i < maxRetries pm \<longrightarrow> i < n)
      \<and> events (fetch_loop pm up \<lparr>kept = b, tries = i, events = spaced i\<rparr>) = spaced n"
    if "Suc i \<le> n" "n \<le> maxRetries pm"
      "events (fetch_loop pm up \<lparr>kept = b, tries = i, events = spaced i\<rparr>) = spaced n" for n
    using that by (intro exI [of _ n]) simp
  show ?case
  proof (cases "up i")
    case Throws
    from later [of b] obtain n where n: "Suc i \<le> n" "n \<le> maxRetries pm"
        "events (fetch_loop pm up \<lparr>kept = b, tries = Suc i, events = spaced (Suc i)\<rparr>)
           = spaced n"
      by blast
    show ?thesis
      using Throws n(3) by (intro finish [OF n(1,2)]) (simp add: fetch_loop_step [OF less])
  next
    case (Returns b')
    show ?thesis
    proof (cases "stops pm b' = Inr True")
      case True
      have "Suc i \<le> maxRetries pm" using less by simp
      then show ?thesis
        using Returns True
        by (intro finish [of "Suc i"]) (simp_all add: fetch_loop_step [OF less] del: spaced.simps)
    next
      case False
      from later [of b'] obtain n where n: "Suc i \<le> n" "n \<le> maxRetries pm"
          "events (fetch_loop pm up \<lparr>kept = b', tries = Suc i, events = spaced (Suc i)\<rparr>)
             = spaced n"
        by blast
      show ?thesis
        using Returns False n(3)
        by (intro finish [OF n(1,2)]) (simp add: fetch_loop_step [OF less])
    qed
  qed
qed

lemma fetch_bounded:
  "polls_in (events (fetch pm up)) \<le> maxRetries pm
   \<and> 0 < polls_in (events (fetch pm up))
   \<and> events (fetch pm up) = spaced (polls_in (events (fetch pm up)))"
proof -
  have "0 < maxRetries pm" by (simp add: maxRetries_def)
  with fetch_loop_events [of 0 pm up null_body] obtain n
    where "0 < n" "n \<le> maxRetries pm" "events (fetch pm up) = spaced n"
    by (auto simp: fetch_def)
  then show ?thesis by (simp add: polls_in_spaced del: spaced.simps)
qed

lemma fetch_loop_poll_loop:
  "i \<le> maxRetries pm \<Longrightarrow>
   fetch_loop pm (\<lambda>k. answer_json (up k)) \<lparr>kept = body_json p, tries = i, events = spaced i\<rparr>
     = (let st = poll_loop pm up \<lparr>paymentMethods = p, retries = i, trace = spaced i\<rparr>
        in \<lparr>kept = body_json (paymentMethods st), tries = retries st, events = trace st\<rparr>)"
proof (induction "maxRetries pm - i" arbitrary: i p)
  case 0
  then have "\<not> i < maxRetries pm" by simp
  then show ?case
    by (simp add: poll_loop_done) (subst fetch_loop.simps, simp)
next
  case (Suc d)
  then have less: "i < maxRetries pm" by simp
  have next_step: "fetch_loop pm (\<lambda>k. answer_json (up k))
        \<lparr>kept = body_json q, tries = Suc i, events = spaced (Suc i)\<rparr>
      = (let st = poll_loop pm up \<lparr>paymentMethods = q, retries = Suc i, trace = spaced (Suc i)\<rparr>
         in \<lparr>kept = body_json (paymentMethods st), tries = retries st, events = trace st\<rparr>)" for q
    using Suc.hyps(1) [of "Suc i" q] Suc.hyps(2) less by simp
  show ?case
  proof (cases "up i")
    case PollThrows
    then show ?thesis
      using next_step [of p]
      by (simp add: fetch_loop_step [OF less] poll_loop_step [OF less] answer_json_def
          del: spaced.simps)
  next
    case (PollReturns r)
    then show ?thesis
      using next_step [of r]
      by (simp add: fetch_loop_step [OF less] poll_loop_step [OF less] answer_json_def
          stops_body_json del: spaced.simps)
  qed
qed

lemma fetch_poll:
  "fetch pm (\<lambda>k. answer_json (up k))
     = \<lparr>kept = body_json (paymentMethods (poll pm up)), tries = retries (poll pm up),
        events = trace (poll pm up)\<rparr>"
  using fetch_loop_poll_loop [of 0 pm up None]
  by (simp add: fetch_def poll_def body_json_def Let_def)


subsection \<open>What the entries leave in the result\<close>

lemma initial_response_fields:
  assumes "invoice \<noteq> Undefined" and "invoice \<noteq> Value JNull"
  shows "\<exists>r0. initial_response invoice = Inr r0 \<and> lightningInvoice r0 = Undefined
           \<and> address r0 = Undefined"
proof -
  obtain v where v: "invoice = Value v" "v \<noteq> JNull"
    using assms by (cases invoice) auto
  show ?thesis
    by (simp add: initial_response_def v property_not_null)
qed

lemma add_methods_readable:
  assumes "JNull \<notin> set ms"
  shows "\<exists>r'. add_methods pm na r ms = Inr r'
     \<and> (\<not> list_ex (\<lambda>m. has_destination ''BTC-Onchain'' m = Inr True) ms
          \<longrightarrow> address r' = address r)
     \<and> ((pm = ''lightning''
            \<longrightarrow> \<not> list_ex (\<lambda>m. has_destination ''BTC-LightningNetwork'' m = Inr True) ms)
          \<and> \<not> (pm = ''onchain'' \<and> na)
          \<longrightarrow> lightningInvoice r' = lightningInvoice r)"
  using assms
proof (induction ms arbitrary: r)
  case Nil
  show ?case by simp
next
  case (Cons m ms)
  then have m: "m \<noteq> JNull" and ms: "JNull \<notin> set ms" by auto
  obtain l where l: "has_destination ''BTC-LightningNetwork'' m = Inr l"
    by (simp add: has_destination_not_null [OF m])
  obtain c where c: "has_destination ''BTC-Onchain'' m = Inr c"
    by (simp add: has_destination_not_null [OF m])
  have "\<exists>r1. add_method pm na r m = Inr r1
      \<and> (\<not> c \<longrightarrow> address r1 = address r)
      \<and> ((pm = ''lightning'' \<longrightarrow> \<not> l) \<and> \<not> (pm = ''onchain'' \<and> na)
           \<longrightarrow> lightningInvoice r1 = lightningInvoice r)"
    by (cases l; cases c) (simp_all add: add_method_def l c)
  then obtain r1 where r1: "add_method pm na r m = Inr r1"
      "\<not> c \<longrightarrow> address r1 = address r"
      "(pm = ''lightning'' \<longrightarrow> \<not> l) \<and> \<not> (pm = ''onchain'' \<and> na)
         \<longrightarrow> lightningInvoice r1 = lightningInvoice r"
    by blast
  from Cons.IH [OF ms, of r1] obtain r' where r': "add_methods pm na r1 ms = Inr r'"
      "\<not> list_ex (\<lambda>m. has_destination ''BTC-Onchain'' m = Inr True) ms
         \<longrightarrow> address r' = address r1"
      "(pm = ''lightning''
          \<longrightarrow> \<not> list_ex (\<lambda>m. has_destination ''BTC-LightningNetwork'' m = Inr True) ms)
        \<and> \<not> (pm = ''onchain'' \<and> na)
        \<longrightarrow> lightningInvoice r' = lightningInvoice r1"
    by blast
  show ?case
    using r1 r' l c by auto
qed

lemma only_entries_of_readable: "only_entries_of name ms \<Longrightarrow> JNull \<notin> set ms"
  by (induction ms) (auto simp: only_entries_of_def is_method_null)

lemma only_lightning_no_onchain:
  assumes "only_entries_of ''BTC-LightningNetwork'' ms"
  shows "\<not> list_ex (\<lambda>m. is_method ''BTC-Onchain'' m = Inr True) ms"
    and "\<not> list_ex (\<lambda>m. has_destination ''BTC-Onchain'' m = Inr True) ms"
  using assms
  by (induction ms)
     (auto simp: only_entries_of_def has_destination_def is_method_def split: sum.splits)

lemma responseData_fallback:
  assumes "readable b" and "stops pm b \<noteq> Inr True"
    and "onchain_not_available pm b = Inr False"
    and "pm = ''onchain'' \<or> \<not> offers ''BTC-Onchain'' b"
    and "lightningInvoice r0 = Undefined" and "address r0 = Undefined"
  shows "\<exists>r. responseData pm r0 b = Inr r \<and> useCheckoutLink r = Some True
    \<and> message r = Some ''Payment details not available. Use checkout page.''
    \<and> lightningInvoice r = Undefined \<and> address r = Undefined"
proof (cases b)
  case (OtherBody c)
  then show ?thesis
    using assms by (simp add: responseData_def)
next
  case (ArrayBody ms)
  then have ms: "JNull \<notin> set ms"
    using assms(1) by (simp add: readable_def)
  have miss: "\<not> (pm = ''lightning'' \<and> offers ''BTC-LightningNetwork'' b)"
      "\<not> (pm = ''onchain'' \<and> offers ''BTC-Onchain'' b)"
    using assms(2) by (simp_all add: stops_readable [OF assms(1)])
  then have a: "\<not> list_ex (\<lambda>m. has_destination ''BTC-Onchain'' m = Inr True) ms"
    and l: "pm = ''lightning''
       \<longrightarrow> \<not> list_ex (\<lambda>m. has_destination ''BTC-LightningNetwork'' m = Inr True) ms"
    using assms(4) ArrayBody by (auto simp: offers_def)
  from add_methods_readable [OF ms, of pm False r0] obtain r1
    where "add_methods pm False r0 ms = Inr r1" "address r1 = address r0"
      "lightningInvoice r1 = lightningInvoice r0"
    using a l by auto
  then show ?thesis
    using assms(3,5,6) ArrayBody by (simp add: responseData_def)
qed

text \<open>
  C4 (amended).  For a POST request whose invoice-create call returned an invoice: if the
  poll loop has used up its retry budget (it ended without a \<open>break\<close>, so no answer held
  a destination of the requested method), the last body polled is one the handler can
  read (no array and skipped, or a list with no \<open>null\<close> in it), it is not the
  on-chain-unavailable case, and that body offers no BTC-Onchain destination unless
  \<open>onchain\<close> was requested, then the handler answers 200 with \<open>useCheckoutLink = true\<close>
  and the message "Payment details not available. Use checkout page.", and with neither
  \<open>lightningInvoice\<close> nor \<open>address\<close>.
\<close>

theorem handler_checkout_fallback:
  assumes "http_method req = ''POST''" and "invoiceData req now = Inr d"
    and "create_invoice up d = Inr invoice"
    and "invoice \<noteq> Undefined" and "invoice \<noteq> Value JNull"
    and "tries (fetch (req_paymentMethod req) (payment_methods up))
           = maxRetries (req_paymentMethod req)"
    and "readable (kept (fetch (req_paymentMethod req) (payment_methods up)))"
    and "onchain_not_available (req_paymentMethod req)
           (kept (fetch (req_paymentMethod req) (payment_methods up))) = Inr False"
    and "req_paymentMethod req = ''onchain''
         \<or> \<not> offers ''BTC-Onchain'' (kept (fetch (req_paymentMethod req) (payment_methods up)))"
  shows "\<exists>r. handler up now req = (200, InvoiceBody r)
           \<and> useCheckoutLink r = Some True
           \<and> message r = Some ''Payment details not available. Use checkout page.''
           \<and> lightningInvoice r = Undefined \<and> address r = Undefined"
proof -
  let ?pm = "req_paymentMethod req"
  let ?b = "kept (fetch ?pm (payment_methods up))"
  obtain r0 where r0: "initial_response invoice = Inr r0" "lightningInvoice r0 = Undefined"
      "address r0 = Undefined"
    using initial_response_fields [OF assms(4,5)] by blast
  have "stops ?pm ?b \<noteq> Inr True"
    using assms(6) by (rule fetch_exhausted)
  with responseData_fallback [OF assms(7) _ assms(8,9) r0(2,3)] obtain r
    where r: "responseData ?pm r0 ?b = Inr r" "useCheckoutLink r = Some True"
      "message r = Some ''Payment details not available. Use checkout page.''"
      "lightningInvoice r = Undefined" "address r = Undefined"
    by blast
  have "handler up now req = (200, InvoiceBody r)"
    using assms(1-3) r0(1) r(1) by (simp add: handler_def)
  with r show ?thesis by blast
qed


subsection \<open>The samples\<close>

lemma fetch_loop_constant:
  "i \<le> maxRetries pm \<Longrightarrow> stops pm b \<noteq> Inr True \<Longrightarrow>
   fetch_loop pm (\<lambda>k. Returns b) \<lparr>kept = b0, tries = i, events = spaced i\<rparr>
     = \<lparr>kept = (if i < maxRetries pm then b else b0), tries = maxRetries pm,
        events = spaced (maxRetries pm)\<rparr>"
proof (induction "maxRetries pm - i" arbitrary: i b0)
  case 0
  then have "i = maxRetries pm" by simp
  then show ?case by (subst fetch_loop.simps) simp
next
  case (Suc d)
  then have less: "i < maxRetries pm" by simp
  have "fetch_loop pm (\<lambda>k. Returns b) \<lparr>kept = b, tries = Suc i, events = spaced (Suc i)\<rparr>
      = \<lparr>kept = b, tries = maxRetries pm, events = spaced (maxRetries pm)\<rparr>"
    using Suc.hyps(1) [of "Suc i" b] Suc.hyps(2) Suc.prems(2) less by simp
  then show ?case
    using less Suc.prems(2) by (simp add: fetch_loop_step [OF less] del: spaced.simps)
qed

lemma fetch_constant:
  assumes "stops pm b \<noteq> Inr True"
  shows "fetch pm (payment_methods (answering (Returns b)))
     = \<lparr>kept = b, tries = maxRetries pm, events = spaced (maxRetries pm)\<rparr>"
  using fetch_loop_constant [OF _ assms, of 0 null_body]
  by (simp add: fetch_def answering_def maxRetries_def)

lemma sample_request:
  "http_method (request_for pm) = ''POST''" "req_paymentMethod (request_for pm) = pm"
  "\<exists>d. invoiceData (request_for pm) now = Inr d"
  by (simp_all add: request_for_def invoiceData_def)

lemma sample_created:
  "create_invoice (answering a) d = Inr sample_invoice"
  "sample_invoice \<noteq> Undefined" "sample_invoice \<noteq> Value JNull"
  by (simp_all add: answering_def sample_invoice_def)

theorem handler_checkout_fallback_witness:
  "tries (fetch ''onchain'' (payment_methods (answering (Returns (ArrayBody address_pending)))))
     = maxRetries ''onchain''
   \<and> kept (fetch ''onchain'' (payment_methods (answering (Returns (ArrayBody address_pending)))))
     = ArrayBody address_pending
   \<and> readable (ArrayBody address_pending)
   \<and> onchain_not_available ''onchain'' (ArrayBody address_pending) = Inr False
   \<and> (\<exists>r. handler (answering (Returns (ArrayBody address_pending))) 1700000000000
            (request_for ''onchain'') = (200, InvoiceBody r)
          \<and> useCheckoutLink r = Some True
          \<and> message r = Some ''Payment details not available. Use checkout page.''
          \<and> lightningInvoice r = Undefined \<and> address r = Undefined)
   \<and> tries (fetch ''lightning'' (payment_methods (answering (Returns (ArrayBody invoice_pending)))))
     = maxRetries ''lightning''
   \<and> kept (fetch ''lightning'' (payment_methods (answering (Returns (ArrayBody invoice_pending)))))
     = ArrayBody invoice_pending
   \<and> readable (ArrayBody invoice_pending)
   \<and> onchain_not_available ''lightning'' (ArrayBody invoice_pending) = Inr False
   \<and> \<not> offers ''BTC-Onchain'' (ArrayBody invoice_pending)
   \<and> (\<exists>r. handler (answering (Returns (ArrayBody invoice_pending))) 1700000000000
            (request_for ''lightning'') = (200, InvoiceBody r)
          \<and> useCheckoutLink r = Some True
          \<and> message r = Some ''Payment details not available. Use checkout page.''
          \<and> lightningInvoice r = Undefined \<and> address r = Undefined)"
proof -
  let ?up = "answering (Returns (ArrayBody address_pending))"
  let ?up' = "answering (Returns (ArrayBody invoice_pending))"
  have miss: "stops ''onchain'' (ArrayBody address_pending) \<noteq> Inr True"
      "stops ''lightning'' (ArrayBody invoice_pending) \<noteq> Inr True"
    by code_simp+
  have k: "kept (fetch ''onchain'' (payment_methods ?up)) = ArrayBody address_pending"
    and t: "tries (fetch ''onchain'' (payment_methods ?up)) = maxRetries ''onchain''"
    by (simp_all add: fetch_constant [OF miss(1)])
  have k': "kept (fetch ''lightning'' (payment_methods ?up')) = ArrayBody invoice_pending"
    and t': "tries (fetch ''lightning'' (payment_methods ?up')) = maxRetries ''lightning''"
    by (simp_all add: fetch_constant [OF miss(2)])
  have r: "readable (ArrayBody address_pending)" "readable (ArrayBody invoice_pending)"
    by code_simp+
  have n: "onchain_not_available ''onchain'' (ArrayBody address_pending) = Inr False"
      "onchain_not_available ''lightning'' (ArrayBody invoice_pending) = Inr False"
    by code_simp+
  have a: "\<not> offers ''BTC-Onchain'' (ArrayBody invoice_pending)"
    by code_simp
  obtain d where d: "invoiceData (request_for ''onchain'') 1700000000000 = Inr d"
    using sample_request(3) by blast
  obtain d' where d': "invoiceData (request_for ''lightning'') 1700000000000 = Inr d'"
    using sample_request(3) by blast
  have "\<exists>r. handler ?up 1700000000000 (request_for ''onchain'') = (200, InvoiceBody r)
           \<and> useCheckoutLink r = Some True
           \<and> message r = Some ''Payment details not available. Use checkout page.''
           \<and> lightningInvoice r = Undefined \<and> address r = Undefined"
    by (rule handler_checkout_fallback [OF sample_request(1) d sample_created])
       (simp_all add: sample_request(2) k t r n)
  moreover
  have "\<exists>r. handler ?up' 1700000000000 (request_for ''lightning'') = (200, InvoiceBody r)
           \<and> useCheckoutLink r = Some True
           \<and> message r = Some ''Payment details not available. Use checkout page.''
           \<and> lightningInvoice r = Undefined \<and> address r = Undefined"
    by (rule handler_checkout_fallback [OF sample_request(1) d' sample_created])
       (simp_all add: sample_request(2) k' t' r n a)
  ultimately show ?thesis
    using k t r n k' t' a by blast
qed

text \<open>
  C4 as it is written fails where the provider answers the polls with a body the handler
  cannot read.  The loop keeps the body and counts the attempt (lines 96 and 116); lines
  131 and 132 then throw outside the \<open>try\<close> of the loop, and the \<open>catch\<close> of line 166
  answers 500.  So it is for a list that holds \<open>null\<close> and for a text.
\<close>

theorem handler_checkout_fallback_counterexample:
  "tries (fetch ''onchain'' (payment_methods (answering (Returns (ArrayBody [JNull])))))
     = maxRetries ''onchain''
   \<and> kept (fetch ''onchain'' (payment_methods (answering (Returns (ArrayBody [JNull])))))
     = ArrayBody [JNull]
   \<and> handler (answering (Returns (ArrayBody [JNull]))) 1700000000000 (request_for ''onchain'')
     = (500, ErrorBody ''Failed to create invoice'' (Some (Thrown TypeError)))
   \<and> tries (fetch ''lightning'' (payment_methods (answering (Returns (text_body ''Bad Gateway'')))))
     = maxRetries ''lightning''
   \<and> handler (answering (Returns (text_body ''Bad Gateway''))) 1700000000000
        (request_for ''lightning'')
     = (500, ErrorBody ''Failed to create invoice'' (Some (Thrown TypeError)))"
proof -
  have miss: "stops ''onchain'' (ArrayBody [JNull]) \<noteq> Inr True"
      "stops ''lightning'' (text_body ''Bad Gateway'') \<noteq> Inr True"
    by code_simp+
  have thrown: "responseData ''onchain'' r0 (ArrayBody [JNull]) = Inl TypeError"
      "responseData ''lightning'' r0 (text_body ''Bad Gateway'') = Inl TypeError" for r0
    by (simp_all add: responseData_def onchain_not_available_def is_method_null text_body_def)
  obtain r0 where r0: "initial_response sample_invoice = Inr r0"
    using initial_response_fields [OF sample_created(2,3)] by blast
  obtain d where d: "invoiceData (request_for ''onchain'') 1700000000000 = Inr d"
    using sample_request(3) by blast
  obtain d' where d': "invoiceData (request_for ''lightning'') 1700000000000 = Inr d'"
    using sample_request(3) by blast
  show ?thesis
    by (simp add: handler_def failed_def sample_request(1,2) d d' sample_created(1) r0
        fetch_constant [OF miss(1)] fetch_constant [OF miss(2)] thrown)
qed

text \<open>
  Where the body kept by the loop cannot be read, the request fails: lines 129 to 152
  throw a TypeError, whatever the entries before the \<open>null\<close> are.
\<close>

lemma property_error: "property v name = Inl e \<Longrightarrow> e = TypeError"
  by (cases "(v, name)" rule: property.cases) auto

lemma array_some_error:
  "array_some f ms = Inl e \<Longrightarrow> \<exists>m\<in>set ms. f m = Inl e"
  by (induction ms) (auto split: sum.splits if_splits)

lemma array_every_error:
  "array_every f ms = Inl e \<Longrightarrow> \<exists>m\<in>set ms. f m = Inl e"
  by (induction ms) (auto split: sum.splits if_splits)

lemma is_method_error: "is_method name m = Inl e \<Longrightarrow> e = TypeError"
  by (cases "m = JNull") (simp_all add: is_method_null is_method_not_null)

lemma onchain_not_available_error:
  "onchain_not_available pm b = Inl e \<Longrightarrow> e = TypeError"
  by (auto simp: onchain_not_available_def split: polled.splits if_splits sum.splits
      dest!: array_some_error array_every_error is_method_error)

lemma add_methods_null:
  "JNull \<in> set ms \<Longrightarrow> add_methods pm na r ms = Inl TypeError"
proof (induction ms arbitrary: r)
  case Nil
  then show ?case by simp
next
  case (Cons m ms)
  show ?case
  proof (cases "m = JNull")
    case True
    then show ?thesis by (simp add: add_method_def has_destination_null)
  next
    case False
    then obtain r1 where "add_method pm na r m = Inr r1"
      using add_methods_readable [of "[m]" pm na r] by (auto split: sum.splits)
    then show ?thesis
      using Cons False by auto
  qed
qed

lemma responseData_not_readable:
  assumes "\<not> readable b"
  shows "responseData pm r0 b = Inl TypeError"
proof (cases b)
  case (OtherBody c)
  with assms show ?thesis
    by (simp add: readable_def responseData_def onchain_not_available_def)
next
  case (ArrayBody ms)
  with assms have "JNull \<in> set ms" by (simp add: readable_def)
  then have "add_methods pm na r0 ms = Inl TypeError" for na
    by (rule add_methods_null)
  then show ?thesis
    using ArrayBody onchain_not_available_error [of pm b]
    by (auto simp: responseData_def split: sum.splits)
qed

lemma handler_body_not_readable:
  assumes "http_method req = ''POST''" and "invoiceData req now = Inr d"
    and "create_invoice up d = Inr invoice"
    and "\<not> readable (kept (fetch (req_paymentMethod req) (payment_methods up)))"
  shows "handler up now req = (500, ErrorBody ''Failed to create invoice'' (Some (Thrown TypeError)))"
proof (cases "initial_response invoice")
  case (Inl e)
  then have "e = TypeError"
    by (auto simp: initial_response_def split: sum.splits dest: property_error)
  with Inl show ?thesis
    using assms(1-3) by (simp add: handler_def failed_def)
next
  case (Inr r0)
  then show ?thesis
    using assms(1-3) responseData_not_readable [OF assms(4)]
    by (simp add: handler_def failed_def)
qed

text \<open>
  The hypothesis on BTC-Onchain destinations is needed as well.  Line 148 copies such a
  destination into \<open>address\<close> whatever method was requested, where line 142 asks for the
  requested method first (as do both branches of the Express variant, unnamed/part_001
  lines 187 to 190): on a \<open>lightning\<close> request answered with an on-chain entry alone the
  address is reported and \<open>useCheckoutLink\<close> is not set.
\<close>

lemma handler_address_not_requested:
  "handler (answering (Returns (ArrayBody onchain_only))) 1700000000000 (request_for ''lightning'')
     = (200, InvoiceBody
         \<lparr>invoiceId = Value (JString ''inv_1''),
          checkoutURL = Value (JString ''https://pay.example/i/inv_1''),
          expiresAt = Value (JNumber 1700000900), status = Value (JString ''New''),
          lightningInvoice = Undefined, fallbackToLightning = None,
          address = Value (JString ''bcrt1qexample''),
          btcAmount = Value (JString ''0.00012000''), useCheckoutLink = None,
          onchainNotAvailable = None, message = None\<rparr>)"
proof -
  have miss: "stops ''lightning'' (ArrayBody onchain_only) \<noteq> Inr True"
    by code_simp
  have r0: "initial_response sample_invoice =
      Inr \<lparr>invoiceId = Value (JString ''inv_1''),
           checkoutURL = Value (JString ''https://pay.example/i/inv_1''),
           expiresAt = Value (JNumber 1700000900), status = Value (JString ''New''),
           lightningInvoice = Undefined, fallbackToLightning = None, address = Undefined,
           btcAmount = Undefined, useCheckoutLink = None, onchainNotAvailable = None,
           message = None\<rparr>"
    by (simp add: initial_response_def sample_invoice_def)
  have shaped: "responseData ''lightning''
        \<lparr>invoiceId = Value (JString ''inv_1''),
         checkoutURL = Value (JString ''https://pay.example/i/inv_1''),
         expiresAt = Value (JNumber 1700000900), status = Value (JString ''New''),
         lightningInvoice = Undefined, fallbackToLightning = None, address = Undefined,
         btcAmount = Undefined, useCheckoutLink = None, onchainNotAvailable = None,
         message = None\<rparr> (ArrayBody onchain_only)
      = Inr \<lparr>invoiceId = Value (JString ''inv_1''),
          checkoutURL = Value (JString ''https://pay.example/i/inv_1''),
          expiresAt = Value (JNumber 1700000900), status = Value (JString ''New''),
          lightningInvoice = Undefined, fallbackToLightning = None,
          address = Value (JString ''bcrt1qexample''),
          btcAmount = Value (JString ''0.00012000''), useCheckoutLink = None,
          onchainNotAvailable = None, message = None\<rparr>"
    by code_simp
  obtain d where d: "invoiceData (request_for ''lightning'') 1700000000000 = Inr d"
    using sample_request(3) by blast
  show ?thesis
    by (simp add: handler_def sample_request(1,2) d sample_created(1) r0
        fetch_constant [OF miss] shaped)
qed


text \<open>
  C5.  For an \<open>onchain\<close> request whose invoice-create call returned an invoice and whose
  last polled body is a list of BTC-LightningNetwork entries, with no entry of another
  method in it, the result has \<open>onchainNotAvailable = true\<close> and no \<open>address\<close>.
\<close>

theorem handler_onchain_not_available:
  assumes "http_method req = ''POST''" and "invoiceData req now = Inr d"
    and "create_invoice up d = Inr invoice"
    and "invoice \<noteq> Undefined" and "invoice \<noteq> Value JNull"
    and "req_paymentMethod req = ''onchain''"
    and "kept (fetch ''onchain'' (payment_methods up)) = ArrayBody ms"
    and "ms \<noteq> []" and "only_entries_of ''BTC-LightningNetwork'' ms"
  shows "\<exists>r. handler up now req = (200, InvoiceBody r)
           \<and> onchainNotAvailable r = Some True \<and> address r = Undefined"
proof -
  obtain r0 where r0: "initial_response invoice = Inr r0" "address r0 = Undefined"
    using initial_response_fields [OF assms(4,5)] by blast
  have ms: "JNull \<notin> set ms"
    using assms(9) by (rule only_entries_of_readable)
  have "array_every (is_method ''BTC-LightningNetwork'') ms = Inr True"
    using assms(9) by (simp add: array_every_is_method [OF ms] only_entries_of_def)
  moreover have "array_some (is_method ''BTC-Onchain'') ms = Inr False"
    using only_lightning_no_onchain(1) [OF assms(9)] by (simp add: array_some_is_method [OF ms])
  ultimately have na: "onchain_not_available ''onchain'' (ArrayBody ms) = Inr True"
    using assms(8) by (simp add: onchain_not_available_def)
  from add_methods_readable [OF ms, of "''onchain''" True r0] obtain r1
    where r1: "add_methods ''onchain'' True r0 ms = Inr r1" "address r1 = address r0"
    using only_lightning_no_onchain(2) [OF assms(9)] by auto
  have "handler up now req
      = (200, InvoiceBody (r1\<lparr>useCheckoutLink := Some True, onchainNotAvailable := Some True,
           message := Some ''On-chain payments not available. Use checkout page or try Lightning.''\<rparr>))"
    using assms(1-3,6,7) r0(1) na r1(1) by (simp add: handler_def responseData_def)
  then show ?thesis
    using r1(2) r0(2) by simp
qed

theorem handler_onchain_not_available_witness:
  "kept (fetch ''onchain'' (payment_methods (answering (Returns (ArrayBody lightning_only)))))
     = ArrayBody lightning_only
   \<and> lightning_only \<noteq> [] \<and> only_entries_of ''BTC-LightningNetwork'' lightning_only
   \<and> (\<exists>r. handler (answering (Returns (ArrayBody lightning_only))) 1700000000000
             (request_for ''onchain'') = (200, InvoiceBody r)
          \<and> onchainNotAvailable r = Some True \<and> address r = Undefined)"
proof -
  let ?up = "answering (Returns (ArrayBody lightning_only))"
  have miss: "stops ''onchain'' (ArrayBody lightning_only) \<noteq> Inr True"
    by code_simp
  have k: "kept (fetch ''onchain'' (payment_methods ?up)) = ArrayBody lightning_only"
    by (simp add: fetch_constant [OF miss])
  have l: "lightning_only \<noteq> []" "only_entries_of ''BTC-LightningNetwork'' lightning_only"
    by code_simp+
  obtain d where d: "invoiceData (request_for ''onchain'') 1700000000000 = Inr d"
    using sample_request(3) by blast
  have "\<exists>r. handler ?up 1700000000000 (request_for ''onchain'') = (200, InvoiceBody r)
           \<and> onchainNotAvailable r = Some True \<and> address r = Undefined"
    by (rule handler_onchain_not_available
          [OF sample_request(1) d sample_created sample_request(2) k l])
  with k l show ?thesis by blast
qed

section \<open>Properties of the webhook handlers\<close>

subsection \<open>Hexadecimal\<close>

lemma unhex_hex_digit: "n < 16 \<Longrightarrow> unhex (hex_digit n) = Some n"
proof -
  assume "n < 16"
  then have "n \<in> {0, 1, 2, 3, 4, 5, 6, 7, 8, 9, 10, 11, 12, 13, 14, 15}"
    by simp arith
  then show ?thesis
    by (auto simp: hex_digit_def unhex_def)
qed

lemma hex_decode_encode: "hex_decode (hex_encode bs) = bs"
proof (induction bs)
  case Nil
  then show ?case by (simp add: hex_encode_def)
next
  case (Cons b bs)
  have "unat b < 256"
    using unsigned_less [of b, where ?'a = nat] by simp
  then have hi: "unat b div 16 < 16" and lo: "unat b mod 16 < 16"
    by simp_all
  have "word_of_nat (16 * (unat b div 16) + unat b mod 16) = b"
    by simp
  with Cons show ?case
    by (simp add: hex_encode_def unhex_hex_digit [OF hi] unhex_hex_digit [OF lo])
qed

subsection \<open>Test vectors\<close>

text \<open>
  The digest of \<open>abc\<close> from FIPS 180-4 and the second test case of RFC 4231 (key
  \<open>Jefe\<close>), computed by the definitions above.
\<close>

lemma sha256_abc:
  "sha256 (bytes ''abc'') =
     [186, 120, 22, 191, 143, 1, 207, 234, 65, 65, 64, 222, 93, 174, 34, 35, 176, 3, 97, 163, 150, 23, 122, 156, 180, 16, 255, 97, 242, 0, 21, 173]"
  by code_simp

lemma hmac_sha256_rfc4231:
  "hmac_sha256 (bytes ''Jefe'') (bytes ''what do ya want for nothing?'') =
     [91, 220, 193, 70, 191, 96, 117, 78, 106, 4, 36, 38, 8, 149, 117, 199, 90, 0, 63, 8, 157, 39, 57, 131, 157, 236, 88, 185, 100, 236, 56, 67]"
  by code_simp

subsection \<open>The length of a digest\<close>

lemma length_rounds: "length (rounds s ks ws) = length s"
  by (induction s ks ws rule: rounds.induct) (simp_all add: Let_def)

lemma length_compress: "length (compress h block) = length h"
  by (simp add: compress_def length_rounds)

lemma length_blocks: "length (blocks h ws) = length h"
  by (induction h ws rule: blocks.induct) (simp_all add: length_compress)

lemma length_sha256: "length (sha256 m) = 32"
proof -
  have "length (concat (map word_bytes xs)) = 4 * length xs" for xs
    by (induction xs) (simp_all add: word_bytes_def)
  then show ?thesis
    by (simp add: sha256_def length_blocks initial_hash_def)
qed

lemma length_hmac_sha256: "length (hmac_sha256 key m) = 32"
  by (simp add: hmac_sha256_def Let_def length_sha256)

subsection \<open>The signature check\<close>

lemma check_signature_sha256:
  "check_signature node_digests ''sha256'' (Some k) (Some b) sig =
     timingSafeEqual (hmac_sha256 (bytes k) b) (hex_decode sig)"
  by (simp add: check_signature_def createHmac_def node_digests_def hex_decode_encode)

lemma check_signature_sha266:
  "check_signature node_digests ''sha266'' secret body sig \<noteq> Inr x"
  by (simp add: check_signature_def createHmac_def node_digests_def split: option.splits)

lemma stateless_webhook_sha256:
  "sig \<noteq> [] \<Longrightarrow>
   stateless_webhook node_digests (Some k) \<lparr>signature = Some sig, raw_body = Some b, parsed_body = p\<rparr> =
     (if length (hex_decode sig) \<noteq> 32 then (500, ''Internal server error.'')
      else if hex_decode sig \<noteq> hmac_sha256 (bytes k) b then (401, ''Invalid signature.'')
      else case log_event p of
             Inl e \<Rightarrow> (500, ''Internal server error.'')
           | Inr u \<Rightarrow> (200, ''Webhook received and verified''))"
  by (auto simp: stateless_webhook_def check_signature_sha256 timingSafeEqual_def
      length_hmac_sha256 split: sum.splits)





subsection \<open>C1: which signatures the handler accepts\<close>




subsection \<open>C7: a request without a signature\<close>

text \<open>
  C7.  A webhook request without the signature header (or with an empty one) is answered
  400 "Signature missing.": \<open>crypto\<close> is not called, the store is neither read nor
  written, and it is left as it was.  This holds whatever the digests, the secret and the
  body are.
\<close>

theorem webhook_signature_missing:
  "paidly_webhook digests secret s \<lparr>signature = None, raw_body = b, parsed_body = p\<rparr> =
     \<lparr>status_code = 400, sent = ''Signature missing.'', store_after = s, effects = []\<rparr>
   \<and> paidly_webhook digests secret s \<lparr>signature = Some [], raw_body = b, parsed_body = p\<rparr> =
     \<lparr>status_code = 400, sent = ''Signature missing.'', store_after = s, effects = []\<rparr>"
  by (simp add: paidly_webhook_def)

subsection \<open>C8: the status of an unknown order\<close>

lemma store_get_set:
  "store_get k (store_set (JString k) v s) = Some v"
  by (induction s) (auto simp: store_get_def)

lemma store_get_set_other:
  "JString k \<noteq> k' \<Longrightarrow> store_get k (store_set k' v s) = store_get k s"
  by (induction s) (auto simp: store_get_def)

text \<open>
  C8.  A status query for an order id that has no entry in the store is answered with the
  status "Not Found", and every status query is answered 200: the handler has no path
  that throws or answers an error.
\<close>

theorem check_status_not_found:
  "(store_get orderId s = None \<longrightarrow>
      check_status s orderId =
        \<lparr>status_status = 200, status_sent = ''Not Found'', status_effects = [StoreGet orderId]\<rparr>)
   \<and> status_status (check_status s orderId) = 200"
  by (simp add: check_status_def)

theorem check_status_not_found_witness:
  "store_get ''ORDER-2'' [(JString ''ORDER-1'', ''New'')] = None
   \<and> check_status [(JString ''ORDER-1'', ''New'')] ''ORDER-2'' =
        \<lparr>status_status = 200, status_sent = ''Not Found'', status_effects = [StoreGet ''ORDER-2'']\<rparr>"
proof -
  have "store_get ''ORDER-2'' [(JString ''ORDER-1'', ''New'')] = None"
    by (simp add: store_get_def)
  then show ?thesis
    using check_status_not_found [of "''ORDER-2''" "[(JString ''ORDER-1'', ''New'')]"] by blast
qed

subsection \<open>C10: the values of the store\<close>

lemma new_or_paid_set:
  "new_or_paid s \<Longrightarrow> v = ''New'' \<or> v = ''Paid'' \<Longrightarrow> new_or_paid (store_set k v s)"
  by (induction s) (auto simp: new_or_paid_def)

lemma new_or_paid_get:
  "new_or_paid s \<Longrightarrow> store_get k s = Some v \<Longrightarrow> v = ''New'' \<or> v = ''Paid''"
  by (induction s) (auto simp: new_or_paid_def store_get_def split: if_splits)

lemma webhook_store:
  "store_after (paidly_webhook digests secret s req) = s
   \<or> (\<exists>k. store_after (paidly_webhook digests secret s req) = store_set k ''Paid'' s)"
  by (auto simp: paidly_webhook_def Let_def split: option.splits sum.splits jsvalue.splits bool.splits)

lemma create_payment_store:
  "payment_store (create_payment c now up s a) = s
   \<or> (\<exists>k. payment_store (create_payment c now up s a) = store_set k ''New'' s)"
  by (auto simp: create_payment_def Let_def split: sum.splits)

lemma serve_new_or_paid: "new_or_paid s \<Longrightarrow> new_or_paid (serve cfg s r)"
proof (cases r)
  case (PostWebhook req)
  assume "new_or_paid s"
  then show ?thesis
    using webhook_store [of "cfg_digests cfg" "cfg_secret cfg" s req] PostWebhook
    by (auto simp: new_or_paid_set)
next
  case (PostCreatePayment now up a)
  assume "new_or_paid s"
  then show ?thesis
    using create_payment_store [of "cfg_configured cfg" now up s a] PostCreatePayment
    by (auto simp: new_or_paid_set)
next
  case (GetCheckStatus k)
  assume "new_or_paid s"
  then show ?thesis using GetCheckStatus by simp
qed

lemma foldl_serve_new_or_paid:
  "new_or_paid s \<Longrightarrow> new_or_paid (foldl (serve cfg) s rs)"
  by (induction rs arbitrary: s) (simp_all add: serve_new_or_paid)

lemma check_status_new_or_paid:
  assumes "new_or_paid s"
  shows "status_sent (check_status s k) = ''New'' \<or> status_sent (check_status s k) = ''Paid''
    \<or> status_sent (check_status s k) = ''Not Found''"
proof (cases "store_get k s")
  case None
  then show ?thesis by (simp add: check_status_def)
next
  case (Some v)
  with assms have "v = ''New'' \<or> v = ''Paid''" by (rule new_or_paid_get)
  with Some show ?thesis by (auto simp: check_status_def)
qed

text \<open>
  C10.  Every value of the store is "New" or "Paid": the empty store of a fresh process
  satisfies this, every request (a webhook delivery, a payment creation, a status query)
  keeps it, so it holds after any sequence of requests, and a status query then answers
  "New", "Paid" or "Not Found".  This holds for every table of digests.
\<close>

theorem store_values_new_or_paid:
  "new_or_paid []
   \<and> (new_or_paid s \<longrightarrow> new_or_paid (serve cfg s r))
   \<and> new_or_paid (served cfg rs)
   \<and> (status_sent (check_status (served cfg rs) orderId) = ''New''
      \<or> status_sent (check_status (served cfg rs) orderId) = ''Paid''
      \<or> status_sent (check_status (served cfg rs) orderId) = ''Not Found'')"
proof -
  have e: "new_or_paid []" by (simp add: new_or_paid_def)
  then have "new_or_paid (served cfg rs)"
    unfolding served_def by (rule foldl_serve_new_or_paid)
  then show ?thesis
    using e check_status_new_or_paid serve_new_or_paid by blast
qed

lemma decimal_sample: "decimal 1700000000000 = ''1700000000000''"
  by (simp add: decimal.simps)

lemma create_payment_sample:
  "create_payment True 1700000000000 provider s (Value (JNumber 10)) =
     \<lparr>payment_status = 200,
      payment_sent = PaymentCreated ''ORDER-1700000000000''
        (Value (JString ''lnbcrt100u1example'')) (Value JNull),
      payment_store = store_set (JString ''ORDER-1700000000000'') ''New'' s,
      payment_effects = [StoreSet (JString ''ORDER-1700000000000'') ''New'']\<rparr>"
  by (simp add: create_payment_def provider_def is_number_def payment_details_def
      field_or_null_def decimal_sample Let_def)

theorem store_values_new_or_paid_witness:
  "new_or_paid [(JString ''ORDER-1'', ''New'')]
   \<and> new_or_paid (serve node_server [(JString ''ORDER-1'', ''New'')]
        (PostCreatePayment 1700000000000 provider (Value (JNumber 10))))
   \<and> served node_server [PostCreatePayment 1700000000000 provider (Value (JNumber 10))]
       = [(JString ''ORDER-1700000000000'', ''New'')]
   \<and> status_sent (check_status
        (served node_server [PostCreatePayment 1700000000000 provider (Value (JNumber 10))])
        ''ORDER-1700000000000'') = ''New''"
proof -
  have s: "new_or_paid [(JString ''ORDER-1'', ''New'')]"
    by (simp add: new_or_paid_def)
  have r: "served node_server [PostCreatePayment 1700000000000 provider (Value (JNumber 10))]
      = [(JString ''ORDER-1700000000000'', ''New'')]"
    by (simp add: served_def node_server_def create_payment_sample)
  have "new_or_paid (serve node_server [(JString ''ORDER-1'', ''New'')]
      (PostCreatePayment 1700000000000 provider (Value (JNumber 10))))"
    using s store_values_new_or_paid [of "[(JString ''ORDER-1'', ''New'')]" node_server
        "PostCreatePayment 1700000000000 provider (Value (JNumber 10))"]
    by blast
  with s r show ?thesis
    by (simp add: check_status_def store_get_def)
qed

subsection \<open>C6: what a paid event does to the store\<close>

text \<open>
  Writing the same value under the same key twice is writing it once, for a key that is
  compared by value; so a webhook delivery that is repeated leaves the store as the first
  delivery left it, whatever the digests are.
\<close>

lemma store_set_twice:
  "by_value k \<Longrightarrow> store_set k v (store_set k v s) = store_set k v s"
  by (induction s) auto

lemma webhook_repeated:
  assumes "\<And>k. paid_order (parsed_body req) = Inr (Value k) \<Longrightarrow> by_value k"
  shows "store_after (paidly_webhook digests secret
            (store_after (paidly_webhook digests secret s req)) req)
         = store_after (paidly_webhook digests secret s req)"
  using assms
  by (auto simp: paidly_webhook_def Let_def store_set_twice
      split: option.splits sum.splits jsvalue.splits bool.splits)

text \<open>
  With the digests of Node.js the handler of server.js never gets that far:
  \<open>createHmac('sha266', _)\<close> throws for every request that carries a signature, the
  \<open>catch\<close> answers 500, and line 47 is not reached.
\<close>

lemma webhook_sha266:
  "paidly_webhook node_digests secret s req =
     (if truthy (signature req)
      then \<lparr>status_code = 500, sent = ''Internal server error.'', store_after = s,
             effects = [CreateHmac ''sha266'']\<rparr>
      else \<lparr>status_code = 400, sent = ''Signature missing.'', store_after = s,
             effects = []\<rparr>)"
  by (auto simp: paidly_webhook_def Let_def truthy_def check_signature_sha266
      split: option.splits sum.splits)

lemma webhook_marks_paid:
  assumes "check_signature digests ''sha266'' secret (raw_body req) sig = Inr True"
    and "signature req = Some sig" and "sig \<noteq> []"
    and "paid_order (parsed_body req) = Inr (Value (JString orderId))" and "orderId \<noteq> []"
  shows "store_after (paidly_webhook digests secret s req) = store_set (JString orderId) ''Paid'' s"
  using assms by (simp add: paidly_webhook_def)

lemma paid_delivery_signed:
  "hex_encode (hmac_sha256 (bytes ''whsec_test'') paid_event_body) =
     ''91fe78145ed6f0c48384d5da5eedafba7c693ec50da632eb6f63bc7ba254c7af''"
  unfolding paid_event_body_def by code_simp

text \<open>
  C6 on the code: under the digests of Node.js no delivery changes the store or is
  answered 200.  The paid event for \<open>ORDER-1\<close>, signed with HMAC-SHA256, is answered 500
  and the order stays "New", although the event names the order.
\<close>

theorem webhook_never_marks_paid:
  "store_after (paidly_webhook node_digests secret s req) = s
   \<and> status_code (paidly_webhook node_digests secret s req) \<noteq> 200
   \<and> signature paid_delivery =
       Some (hex_encode (hmac_sha256 (bytes ''whsec_test'') paid_event_body))
   \<and> paid_order (parsed_body paid_delivery) = Inr (Value (JString ''ORDER-1''))
   \<and> paidly_webhook node_digests (Some ''whsec_test'') [(JString ''ORDER-1'', ''New'')]
        paid_delivery =
       \<lparr>status_code = 500, sent = ''Internal server error.'',
        store_after = [(JString ''ORDER-1'', ''New'')], effects = [CreateHmac ''sha266'']\<rparr>"
  by (simp add: webhook_sha266 paid_delivery_signed)
     (simp add: paid_delivery_def paid_event_def paid_order_def truthy_def)

subsection \<open>C3: a signature that is not hexadecimal\<close>

text \<open>
  C3 on the code: the signature \<open>zz\<close> decodes to the empty buffer.  In server.js
  \<open>createHmac\<close> has thrown before; in the variant with \<open>sha256\<close> the buffers differ in
  length and \<open>timingSafeEqual\<close> throws a RangeError.  Both handlers answer 500, not 401.
\<close>

theorem webhook_signature_not_hex:
  "paidly_webhook node_digests secret s \<lparr>signature = Some ''zz'', raw_body = b, parsed_body = p\<rparr>
     = \<lparr>status_code = 500, sent = ''Internal server error.'', store_after = s,
        effects = [CreateHmac ''sha266'']\<rparr>
   \<and> hex_decode ''zz'' = []
   \<and> stateless_webhook node_digests (Some k)
        \<lparr>signature = Some ''zz'', raw_body = Some body, parsed_body = p\<rparr>
     = (500, ''Internal server error.'')"
  by (simp add: webhook_sha266 stateless_webhook_sha256 truthy_def unhex_def)

end
